theory Spec2Isabelle
  imports Complex_Main
begin

section \<open>JavaScript values and remote calls\<close>

text \<open>
  \<^verbatim>\<open>xs.slice(-n)\<close> for a positive \<open>n\<close>: the last \<open>n\<close> elements of \<open>xs\<close>, all of
  \<open>xs\<close> when it is shorter.
\<close>

definition slice_last :: "nat \<Rightarrow> 'a list \<Rightarrow> 'a list" where
  "slice_last n xs = drop (length xs - n) xs"

text \<open>
  \<^verbatim>\<open>a || d\<close> on a field that is an object, an array or absent: an object or array is
  always truthy, so the default is taken exactly when the field is absent or null.
\<close>

definition or_default :: "'a option \<Rightarrow> 'a \<Rightarrow> 'a" where
  "or_default a d = (case a of None \<Rightarrow> d | Some x \<Rightarrow> x)"

text \<open>
  What \<^verbatim>\<open>await supabase.functions.invoke(...)\<close> can do: reject (\<open>Threw\<close>), or
  resolve to \<^verbatim>\<open>{ data, error }\<close>. \<open>Resolved d e\<close> carries the data (\<open>None\<close> is
  \<^verbatim>\<open>null\<close>) and whether \<^verbatim>\<open>error\<close> is set.
\<close>

datatype 'a invoke_result = Threw | Resolved "'a option" bool

text \<open>An opaque JSON value (the \<^verbatim>\<open>unknown\<close> of the knowledge entries).\<close>

datatype jvalue = JNull | JBool bool | JNum real | JStr string

section \<open>useEdgeMemory: data model\<close>

record memory_input =
  mi_content :: string
  mi_memoryType :: string
  mi_importance :: string
  mi_topicTags :: "string list option"

record user_memory =
  content :: string
  memoryType :: string
  importance :: string
  confidence :: real
  topicTags :: "string list option"

text \<open>\<open>k_confidence\<close> is \<open>None\<close> where the code stores \<^verbatim>\<open>undefined\<close>.\<close>

record knowledge_entry =
  k_value :: jvalue
  k_confidence :: "real option"
  k_observations :: nat
  k_type :: string

type_synonym user_knowledge = "string \<rightharpoonup> knowledge_entry"

record session_state =
  conversationSummary :: "string option"
  activeContext :: "string \<rightharpoonup> jvalue"
  pendingTopics :: "string list"
  communicationStyle :: string
  verbosityPreference :: string
  totalInteractions :: nat
  totalSessions :: nat

text \<open>\<^verbatim>\<open>Partial<SessionState>\<close>: \<open>None\<close> is a key that the update does not have.\<close>

record session_update =
  u_conversationSummary :: "string option"
  u_activeContext :: "(string \<rightharpoonup> jvalue) option"
  u_pendingTopics :: "string list option"
  u_communicationStyle :: "string option"
  u_verbosityPreference :: "string option"
  u_totalInteractions :: "nat option"
  u_totalSessions :: "nat option"

text \<open>Timestamps (\<^verbatim>\<open>Date\<close>) are milliseconds as natural numbers.\<close>

record edge_memory_state =
  memories :: "user_memory list"
  knowledge :: user_knowledge
  session :: "session_state option"
  isReturningUser :: bool
  greeting :: string
  isLoading :: bool
  isOnline :: bool
  lastSyncAt :: "nat option"

text \<open>
  The JSON object kept in local storage, and \<^verbatim>\<open>Partial<EdgeMemoryState>\<close>: \<open>None\<close>
  is an absent key; a key that is present may hold \<^verbatim>\<open>null\<close> where the state allows it.
\<close>

record snapshot =
  s_memories :: "user_memory list option"
  s_knowledge :: "user_knowledge option"
  s_session :: "session_state option option"
  s_isReturningUser :: "bool option"
  s_greeting :: "string option"
  s_isLoading :: "bool option"
  s_isOnline :: "bool option"
  s_lastSyncAt :: "nat option option"
  s_savedAt :: "nat option"

text \<open>
  A local-storage item, by what \<^verbatim>\<open>JSON.parse\<close> makes of its text: an exception
  (\<open>Unparsable\<close>), the value \<^verbatim>\<open>null\<close> (\<open>JsonNull\<close>), or an object (\<open>Blob\<close>). A
  number, a string, a boolean or an array has none of the keys read here and is spread
  without an exception, so it behaves as an object without these keys. An empty item is
  falsy and never parsed, so it counts as no item. The fields of an object are taken to
  have the types the hook writes.
\<close>

datatype stored = Unparsable | JsonNull | Blob snapshot

text \<open>
  The browser's storage: its items, whether reading throws (access to the storage is
  denied), and whether writing throws (the quota is exceeded).
\<close>

record browser_storage =
  items :: "string \<rightharpoonup> stored"
  read_denied :: bool
  write_refused :: bool

definition working_storage :: "(string \<rightharpoonup> stored) \<Rightarrow> browser_storage" where
  "working_storage m = \<lparr> items = m, read_denied = False, write_refused = False \<rparr>"

datatype source_mode = SrcFederated | SrcSovereign

record turn =
  t_role :: string
  t_content :: string

text \<open>The requests sent to the \<^verbatim>\<open>edge-agent-memory\<close> function, by action.\<close>

datatype edge_request =
    RehydrateReq string string string
  | StoreMemoryReq string memory_input source_mode
  | EvolveKnowledgeReq string string string jvalue
  | SyncSessionReq string session_update
  | ExtractInsightsReq string "turn list"

record rehydrate_context =
  c_memories :: "user_memory list option"
  c_knowledge :: "user_knowledge option"
  c_session :: "session_state option"

record rehydrate_data =
  r_context :: "rehydrate_context option"
  r_isReturningUser :: bool
  r_greeting :: string

record evolved_info =
  confidence_trajectory :: "real list option"
  observations_count :: "nat option"

record evolve_data =
  evolved :: "evolved_info option"

text \<open>An insight's confidence is \<open>None\<close> when the item has no such field.\<close>

record insight_item =
  i_key :: string
  i_value :: jvalue
  i_confidence :: "real option"

record insight_fact =
  f_content :: string
  f_importance :: string

record insights =
  preferences :: "insight_item list option"
  patterns :: "insight_item list option"
  facts :: "insight_fact list option"

record insights_data =
  success :: bool
  insights_of :: "insights option"

text \<open>
  The backend is an arbitrary environment: each action answers as a function of the
  number of requests the hook has sent before this one.
\<close>

record edge_backend =
  on_rehydrate :: "nat \<Rightarrow> rehydrate_data invoke_result"
  on_store_memory :: "nat \<Rightarrow> unit invoke_result"
  on_evolve_knowledge :: "nat \<Rightarrow> evolve_data invoke_result"
  on_sync_session :: "nat \<Rightarrow> unit invoke_result"
  on_extract_insights :: "nat \<Rightarrow> insights_data invoke_result"

text \<open>
  The hook: its arguments, the \<^verbatim>\<open>userIdRef\<close> reference, the React state, the browser's
  local storage, and the requests sent so far (oldest first). State updaters are run by
  React while it renders, outside every \<^verbatim>\<open>try\<close> of the hook: \<open>render_error\<close> says
  that an updater has been queued that throws when it is run, so that the component
  fails to render and \<open>state\<close> is never shown.
\<close>

record edge_hook =
  satelliteId :: string
  currentSessionId :: string
  userIdRef :: "string option"
  state :: edge_memory_state
  render_error :: bool
  localStorage :: browser_storage
  invoked :: "edge_request list"

definition initial_state :: edge_memory_state where
  "initial_state = \<lparr> memories = [], knowledge = Map.empty, session = None,
     isReturningUser = False, greeting = ''Hello'', isLoading = True,
     isOnline = True, lastSyncAt = None \<rparr>"

definition useEdgeMemory :: "string \<Rightarrow> string \<Rightarrow> browser_storage \<Rightarrow> edge_hook" where
  "useEdgeMemory sat sid store = \<lparr> satelliteId = sat, currentSessionId = sid,
     userIdRef = None, state = initial_state, render_error = False,
     localStorage = store, invoked = [] \<rparr>"

definition setState :: "(edge_memory_state \<Rightarrow> edge_memory_state) \<Rightarrow> edge_hook \<Rightarrow> edge_hook" where
  "setState f w = w\<lparr>state := f (state w)\<rparr>"

text \<open>\<^verbatim>\<open>!userId\<close> holds of \<^verbatim>\<open>null\<close> and of the empty string.\<close>

definition identity :: "edge_hook \<Rightarrow> string option" where
  "identity w = (case userIdRef w of None \<Rightarrow> None
                 | Some u \<Rightarrow> if u = [] then None else Some u)"

definition send :: "edge_request \<Rightarrow> edge_hook \<Rightarrow> edge_hook" where
  "send r w = w\<lparr>invoked := invoked w @ [r]\<rparr>"

section \<open>useEdgeMemory: storeMemory\<close>

definition with_confidence :: "memory_input \<Rightarrow> real \<Rightarrow> user_memory" where
  "with_confidence m c = \<lparr> content = mi_content m, memoryType = mi_memoryType m,
     importance = mi_importance m, confidence = c, topicTags = mi_topicTags m \<rparr>"

text \<open>\<^verbatim>\<open>[...prev.memories.slice(-49), { ...memory, confidence: 0.5 }]\<close>\<close>

definition appendMemory :: "memory_input \<Rightarrow> edge_memory_state \<Rightarrow> edge_memory_state" where
  "appendMemory m s = s\<lparr>memories := slice_last 49 (memories s) @ [with_confidence m 0.5]\<rparr>"

definition storeMemory :: "edge_backend \<Rightarrow> memory_input \<Rightarrow> edge_hook \<Rightarrow> edge_hook" where
  "storeMemory be m w =
     (case identity w of
        None \<Rightarrow> setState (appendMemory m) w
      | Some uid \<Rightarrow>
          (let w1 = send (StoreMemoryReq uid m
                      (if isOnline (state w) then SrcFederated else SrcSovereign)) w
           in case on_store_memory be (length (invoked w)) of
                Threw \<Rightarrow> setState (appendMemory m) w1
              | Resolved d e \<Rightarrow> setState (appendMemory m) w1))"

text \<open>A sequence of \<^verbatim>\<open>storeMemory\<close> calls, each awaited before the next.\<close>

fun storeMemory_seq :: "edge_backend \<Rightarrow> memory_input list \<Rightarrow> edge_hook \<Rightarrow> edge_hook" where
  "storeMemory_seq be [] w = w"
| "storeMemory_seq be (m # ms) w = storeMemory_seq be ms (storeMemory be m w)"

section \<open>useEdgeMemory: local cache\<close>

text \<open>\<^verbatim>\<open>`${LOCAL_STORAGE_KEY}_${satelliteId}`\<close>\<close>

definition LOCAL_STORAGE_KEY :: string where
  "LOCAL_STORAGE_KEY = ''edge_memory_cache''"

definition cache_key :: "string \<Rightarrow> string" where
  "cache_key sat = LOCAL_STORAGE_KEY @ ''_'' @ sat"

text \<open>
  \<^verbatim>\<open>parsed.session || null\<close>: an absent key and \<^verbatim>\<open>null\<close> both give \<^verbatim>\<open>null\<close>.
\<close>

definition or_null :: "'a option option \<Rightarrow> 'a option" where
  "or_null a = (case a of None \<Rightarrow> None | Some x \<Rightarrow> x)"

text \<open>
  A read that throws, an item that does not parse: the exception is caught and logged,
  and the state is left as it is; so it is with no item (or an empty one). The updater
  given to \<^verbatim>\<open>setState\<close> reads \<^verbatim>\<open>parsed.memories\<close> when React runs it: on an item that
  is \<^verbatim>\<open>null\<close> it throws there, outside the \<^verbatim>\<open>try\<close>.
\<close>

definition loadFromLocalStorage :: "edge_hook \<Rightarrow> edge_hook" where
  "loadFromLocalStorage w =
     (if read_denied (localStorage w) then w
      else case items (localStorage w) (cache_key (satelliteId w)) of
        None \<Rightarrow> w
      | Some Unparsable \<Rightarrow> w
      | Some JsonNull \<Rightarrow> w\<lparr>render_error := True\<rparr>
      | Some (Blob parsed) \<Rightarrow>
          setState (\<lambda>prev. prev\<lparr>
              memories := or_default (s_memories parsed) [],
              knowledge := or_default (s_knowledge parsed) Map.empty,
              session := or_null (s_session parsed),
              isOnline := False,
              isLoading := False\<rparr>) w)"

text \<open>One key of \<^verbatim>\<open>{ ...a, ...b }\<close>: the value of \<open>b\<close> when \<open>b\<close> has the key.\<close>

definition spread :: "'a option \<Rightarrow> 'a option \<Rightarrow> 'a option" where
  "spread a b = (case b of None \<Rightarrow> a | Some x \<Rightarrow> Some x)"

definition empty_snapshot :: snapshot where
  "empty_snapshot = \<lparr> s_memories = None, s_knowledge = None, s_session = None,
     s_isReturningUser = None, s_greeting = None, s_isLoading = None, s_isOnline = None,
     s_lastSyncAt = None, s_savedAt = None \<rparr>"

text \<open>\<^verbatim>\<open>{ ...parsed, ...data, savedAt: new Date().toISOString() }\<close>\<close>

definition merge_snapshot :: "snapshot \<Rightarrow> snapshot \<Rightarrow> nat \<Rightarrow> snapshot" where
  "merge_snapshot parsed data now = \<lparr>
     s_memories = spread (s_memories parsed) (s_memories data),
     s_knowledge = spread (s_knowledge parsed) (s_knowledge data),
     s_session = spread (s_session parsed) (s_session data),
     s_isReturningUser = spread (s_isReturningUser parsed) (s_isReturningUser data),
     s_greeting = spread (s_greeting parsed) (s_greeting data),
     s_isLoading = spread (s_isLoading parsed) (s_isLoading data),
     s_isOnline = spread (s_isOnline parsed) (s_isOnline data),
     s_lastSyncAt = spread (s_lastSyncAt parsed) (s_lastSyncAt data),
     s_savedAt = Some now \<rparr>"

text \<open>\<^verbatim>\<open>localStorage.setItem(key, v)\<close>: \<open>None\<close> when it throws, and then nothing is stored.\<close>

definition setItem :: "string \<Rightarrow> stored \<Rightarrow> edge_hook \<Rightarrow> edge_hook option" where
  "setItem key v w =
     (if write_refused (localStorage w) then None
      else Some (w\<lparr>localStorage :=
                   (localStorage w)\<lparr>items := (items (localStorage w))(key \<mapsto> v)\<rparr>\<rparr>))"

text \<open>
  The whole body is one \<^verbatim>\<open>try\<close>: a read that throws, an existing item that does not
  parse and a write that throws all end in the \<^verbatim>\<open>catch\<close>, which logs and returns with
  nothing written. No item gives \<^verbatim>\<open>{}\<close>, and spreading \<^verbatim>\<open>null\<close> adds no key.
\<close>

definition saveToLocalStorage :: "nat \<Rightarrow> snapshot \<Rightarrow> edge_hook \<Rightarrow> edge_hook" where
  "saveToLocalStorage now data w =
     (let key = cache_key (satelliteId w)
      in if read_denied (localStorage w) then w
         else case items (localStorage w) key of
           Some Unparsable \<Rightarrow> w
         | None \<Rightarrow>
             (case setItem key (Blob (merge_snapshot empty_snapshot data now)) w of
                None \<Rightarrow> w | Some w1 \<Rightarrow> w1)
         | Some JsonNull \<Rightarrow>
             (case setItem key (Blob (merge_snapshot empty_snapshot data now)) w of
                None \<Rightarrow> w | Some w1 \<Rightarrow> w1)
         | Some (Blob parsed) \<Rightarrow>
             (case setItem key (Blob (merge_snapshot parsed data now)) w of
                None \<Rightarrow> w | Some w1 \<Rightarrow> w1))"

section \<open>useEdgeMemory: rehydration\<close>

text \<open>\<^verbatim>\<open>prev => ({ ...prev, ...newState })\<close>\<close>

definition assign :: "snapshot \<Rightarrow> edge_memory_state \<Rightarrow> edge_memory_state" where
  "assign p prev = \<lparr>
     memories = or_default (s_memories p) (memories prev),
     knowledge = or_default (s_knowledge p) (knowledge prev),
     session = or_default (s_session p) (session prev),
     isReturningUser = or_default (s_isReturningUser p) (isReturningUser prev),
     greeting = or_default (s_greeting p) (greeting prev),
     isLoading = or_default (s_isLoading p) (isLoading prev),
     isOnline = or_default (s_isOnline p) (isOnline prev),
     lastSyncAt = or_default (s_lastSyncAt p) (lastSyncAt prev) \<rparr>"

text \<open>\<^verbatim>\<open>data.context?.f\<close>\<close>

definition context_field :: "(rehydrate_context \<Rightarrow> 'a option) \<Rightarrow> rehydrate_data \<Rightarrow> 'a option" where
  "context_field f d = (case r_context d of None \<Rightarrow> None | Some c \<Rightarrow> f c)"

definition newState_of :: "rehydrate_data \<Rightarrow> nat \<Rightarrow> snapshot" where
  "newState_of d now = \<lparr>
     s_memories = Some (or_default (context_field c_memories d) []),
     s_knowledge = Some (or_default (context_field c_knowledge d) Map.empty),
     s_session = Some (context_field c_session d),
     s_isReturningUser = Some (r_isReturningUser d),
     s_greeting = Some (r_greeting d),
     s_isLoading = Some False,
     s_isOnline = Some True,
     s_lastSyncAt = Some (Some now),
     s_savedAt = None \<rparr>"

text \<open>
  The two failure branches of \<^verbatim>\<open>rehydrateInternal\<close> (a reported error, and the
  \<^verbatim>\<open>catch\<close>) run the same two statements.
\<close>

definition go_offline :: "edge_hook \<Rightarrow> edge_hook" where
  "go_offline w =
     setState (\<lambda>prev. prev\<lparr>isOnline := False, isLoading := False\<rparr>) (loadFromLocalStorage w)"

text \<open>
  \<open>now\<close> is the clock at the call. Data that is \<^verbatim>\<open>null\<close> with no error makes
  \<^verbatim>\<open>data.context\<close> throw a TypeError inside the \<^verbatim>\<open>try\<close>, which the \<^verbatim>\<open>catch\<close> handles.
\<close>

definition rehydrateInternal :: "edge_backend \<Rightarrow> nat \<Rightarrow> string \<Rightarrow> edge_hook \<Rightarrow> edge_hook" where
  "rehydrateInternal be now userId w =
     (let w1 = send (RehydrateReq userId (satelliteId w) (currentSessionId w)) w
      in case on_rehydrate be (length (invoked w)) of
           Threw \<Rightarrow> go_offline w1
         | Resolved d e \<Rightarrow>
             if e then go_offline w1
             else (case d of
                     None \<Rightarrow> go_offline w1
                   | Some data \<Rightarrow>
                       saveToLocalStorage now (newState_of data now)
                         (setState (assign (newState_of data now)) w1)))"

definition rehydrate :: "edge_backend \<Rightarrow> nat \<Rightarrow> edge_hook \<Rightarrow> edge_hook" where
  "rehydrate be now w =
     (case identity w of
        Some userId \<Rightarrow> rehydrateInternal be now userId w
      | None \<Rightarrow> loadFromLocalStorage w)"

text \<open>The callback given to \<^verbatim>\<open>supabase.auth.onAuthStateChange\<close>.\<close>

definition onAuthStateChange :: "edge_backend \<Rightarrow> nat \<Rightarrow> string option \<Rightarrow> edge_hook \<Rightarrow> edge_hook" where
  "onAuthStateChange be now user w =
     (case user of
        Some uid \<Rightarrow> rehydrateInternal be now uid (w\<lparr>userIdRef := Some uid\<rparr>)
      | None \<Rightarrow> loadFromLocalStorage (w\<lparr>userIdRef := None\<rparr>))"

section \<open>useEdgeMemory: knowledge, session, insights\<close>

text \<open>\<^verbatim>\<open>trajectory[trajectory.length - 1]\<close>, which is \<^verbatim>\<open>undefined\<close> on an empty array.\<close>

definition last_element :: "'a list \<Rightarrow> 'a option" where
  "last_element xs = (if xs = [] then None else Some (last xs))"

text \<open>\<^verbatim>\<open>n || 1\<close> on a count: absent and zero both give 1.\<close>

definition count_or_one :: "nat option \<Rightarrow> nat" where
  "count_or_one c = (case c of None \<Rightarrow> 1 | Some n \<Rightarrow> if n = 0 then 1 else n)"

definition put_knowledge :: "string \<Rightarrow> knowledge_entry \<Rightarrow> edge_memory_state \<Rightarrow> edge_memory_state" where
  "put_knowledge key entry prev = prev\<lparr>knowledge := (knowledge prev)(key \<mapsto> entry)\<rparr>"

definition evolveKnowledge ::
  "edge_backend \<Rightarrow> string \<Rightarrow> jvalue \<Rightarrow> string \<Rightarrow> edge_hook \<Rightarrow> edge_hook" where
  "evolveKnowledge be key v ty w =
     (case identity w of
        None \<Rightarrow>
          setState (put_knowledge key
            \<lparr> k_value = v, k_confidence = Some 0.5, k_observations = 1, k_type = ty \<rparr>) w
      | Some uid \<Rightarrow>
          (let w1 = send (EvolveKnowledgeReq uid ty key v) w
           in case on_evolve_knowledge be (length (invoked w)) of
                Threw \<Rightarrow> w1
              | Resolved d e \<Rightarrow>
                  (case d of
                     None \<Rightarrow> w1
                   | Some data \<Rightarrow>
                       (case evolved data of
                          None \<Rightarrow> w1
                        | Some ev \<Rightarrow>
                            setState (put_knowledge key
                              \<lparr> k_value = v,
                                k_confidence =
                                  last_element (or_default (confidence_trajectory ev) [0.5]),
                                k_observations = count_or_one (observations_count ev),
                                k_type = ty \<rparr>) w1))))"

text \<open>\<^verbatim>\<open>{ ...prev.session, ...updates }\<close>\<close>

definition merge_session :: "session_state \<Rightarrow> session_update \<Rightarrow> session_state" where
  "merge_session s u = \<lparr>
     conversationSummary = spread (conversationSummary s) (u_conversationSummary u),
     activeContext = or_default (u_activeContext u) (activeContext s),
     pendingTopics = or_default (u_pendingTopics u) (pendingTopics s),
     communicationStyle = or_default (u_communicationStyle u) (communicationStyle s),
     verbosityPreference = or_default (u_verbosityPreference u) (verbosityPreference s),
     totalInteractions = or_default (u_totalInteractions u) (totalInteractions s),
     totalSessions = or_default (u_totalSessions u) (totalSessions s) \<rparr>"

text \<open>\<^verbatim>\<open>prev.session ? { ...prev.session, ...updates } : null\<close>\<close>

definition merge_into_session :: "session_update \<Rightarrow> edge_memory_state \<Rightarrow> edge_memory_state" where
  "merge_into_session u prev =
     prev\<lparr>session := (case session prev of None \<Rightarrow> None | Some s \<Rightarrow> Some (merge_session s u))\<rparr>"

text \<open>The result of the call is awaited and not looked at: only a rejection skips the merge.\<close>

definition updateSession :: "edge_backend \<Rightarrow> session_update \<Rightarrow> edge_hook \<Rightarrow> edge_hook" where
  "updateSession be updates w =
     (case identity w of
        None \<Rightarrow> w
      | Some uid \<Rightarrow>
          (let w1 = send (SyncSessionReq uid updates) w
           in case on_sync_session be (length (invoked w)) of
                Threw \<Rightarrow> w1
              | Resolved d e \<Rightarrow> setState (merge_into_session updates) w1))"

text \<open>
  \<^verbatim>\<open>item.confidence > t\<close>; with the field absent the comparison is false. Confidences
  are the real numbers that the doubles denote. The literal \<^verbatim>\<open>0.6\<close> is the double just
  below \<open>6/10\<close>, and no double lies between the two, so comparing a double with the
  literal and comparing its value with \<open>6/10\<close> agree.
\<close>

definition confidence_above :: "real option \<Rightarrow> real \<Rightarrow> bool" where
  "confidence_above c t = (case c of None \<Rightarrow> False | Some x \<Rightarrow> t < x)"

text \<open>
  \<^verbatim>\<open>for (const p of items) { if (p.confidence > t) await evolveKnowledge(p.key, p.value, ty) }\<close>
\<close>

fun evolve_each :: "edge_backend \<Rightarrow> real \<Rightarrow> string \<Rightarrow> insight_item list \<Rightarrow> edge_hook \<Rightarrow> edge_hook" where
  "evolve_each be t ty [] w = w"
| "evolve_each be t ty (p # ps) w =
     evolve_each be t ty ps
       (if confidence_above (i_confidence p) t
        then evolveKnowledge be (i_key p) (i_value p) ty w else w)"

definition fact_memory :: "insight_fact \<Rightarrow> memory_input" where
  "fact_memory f = \<lparr> mi_content = f_content f, mi_memoryType = ''insight'',
     mi_importance = f_importance f, mi_topicTags = Some [] \<rparr>"

text \<open>\<^verbatim>\<open>for (const fact of facts) { await storeMemory({ ... }) }\<close>\<close>

fun store_each :: "edge_backend \<Rightarrow> insight_fact list \<Rightarrow> edge_hook \<Rightarrow> edge_hook" where
  "store_each be [] w = w"
| "store_each be (f # fs) w = store_each be fs (storeMemory be (fact_memory f) w)"

definition fan_out :: "edge_backend \<Rightarrow> insights \<Rightarrow> edge_hook \<Rightarrow> edge_hook" where
  "fan_out be ins w =
     store_each be (or_default (facts ins) [])
       (evolve_each be 0.5 ''behavior'' (or_default (patterns ins) [])
         (evolve_each be 0.6 ''preference'' (or_default (preferences ins) []) w))"

definition extractInsights :: "edge_backend \<Rightarrow> turn list \<Rightarrow> edge_hook \<Rightarrow> edge_hook" where
  "extractInsights be conversation w =
     (case identity w of
        None \<Rightarrow> w
      | Some uid \<Rightarrow>
          if length conversation < 2 then w
          else
            (let w1 = send (ExtractInsightsReq uid conversation) w
             in case on_extract_insights be (length (invoked w)) of
                  Threw \<Rightarrow> w1
                | Resolved d e \<Rightarrow>
                    (case d of
                       None \<Rightarrow> w1
                     | Some data \<Rightarrow>
                         if success data
                         then (case insights_of data of
                                 None \<Rightarrow> w1
                               | Some ins \<Rightarrow> fan_out be ins w1)
                         else w1)))"

section \<open>useDualHemisphere: data model\<close>

datatype hemisphere = Alpha | Omega | Fused

datatype governance_mode = Standard | Strict | Autonomous

record reasoning_result =
  response :: string
  result_confidence :: real
  result_hemisphere :: hemisphere
  reasoning_trace :: "string list"
  governance_validated :: bool

text \<open>
  The body of a reply of the \<^verbatim>\<open>chat\<close> and \<^verbatim>\<open>sovereign-fallback\<close> functions; every
  field may be missing.
\<close>

record reasoning_data =
  d_response :: "string option"
  d_confidence :: "real option"
  d_dominant_hemisphere :: "hemisphere option"
  d_reasoning_trace :: "string list option"
  d_governance_validated :: "bool option"

text \<open>
  An entry of the local conversation window. The sovereign path stores
  \<^verbatim>\<open>data.response\<close> as it came, so the content may be \<^verbatim>\<open>undefined\<close> (\<open>None\<close>).
\<close>

record window_turn =
  w_role :: string
  w_content :: "string option"

datatype js_error = InvokeRejected | BackendError | TypeError

datatype dh_request =
    PingReq string
  | ChatReq string governance_mode
  | SovereignReq string governance_mode "window_turn list"

text \<open>A ping's reply and the time, in milliseconds, after which it arrives.\<close>

record ping_reply =
  latency_ms :: nat
  ping_result :: "unit invoke_result"

text \<open>
  The remote functions as an arbitrary environment, each answering by the number of
  requests the hook has sent before this one.
\<close>

record federation =
  on_ping :: "nat \<Rightarrow> ping_reply"
  on_chat :: "nat \<Rightarrow> reasoning_data invoke_result"
  on_sovereign :: "nat \<Rightarrow> reasoning_data invoke_result"

text \<open>
  The hook's state and the requests sent so far. The \<^verbatim>\<open>state\<close> cell, which the hook
  only hands out with its setter, is left out. Each call reads the \<^verbatim>\<open>localMemory\<close> of
  the latest render. \<open>window_error\<close> says that an updater of the window has been queued
  that throws when React runs it, so that the component fails to render.
\<close>

record dual_hemisphere =
  dh_satelliteId :: string
  lastResult :: "reasoning_result option"
  isSovereign :: bool
  localMemory :: "window_turn list"
  window_error :: bool
  requests :: "dh_request list"

definition useDualHemisphere :: "string \<Rightarrow> dual_hemisphere" where
  "useDualHemisphere sat = \<lparr> dh_satelliteId = sat, lastResult = None, isSovereign = False,
     localMemory = [], window_error = False, requests = [] \<rparr>"

definition request :: "dh_request \<Rightarrow> dual_hemisphere \<Rightarrow> dual_hemisphere" where
  "request r w = w\<lparr>requests := requests w @ [r]\<rparr>"

section \<open>useDualHemisphere: health check\<close>

definition FEDERATION_TIMEOUT_MS :: nat where
  "FEDERATION_TIMEOUT_MS = 3000"

text \<open>
  The timer aborts the controller once the timeout has passed with the call still
  pending.
\<close>

definition controller_aborted :: "ping_reply \<Rightarrow> bool" where
  "controller_aborted r = (FEDERATION_TIMEOUT_MS < latency_ms r)"

text \<open>
  Returns the verdict and the time the caller waited for it. The controller's signal is
  not among the options given to \<^verbatim>\<open>invoke\<close>, so whether the controller was aborted
  changes neither: the call is awaited until it settles, and \<^verbatim>\<open>!error\<close> is returned.
\<close>

definition checkFederationHealth ::
  "federation \<Rightarrow> dual_hemisphere \<Rightarrow> (bool \<times> nat) \<times> dual_hemisphere" where
  "checkFederationHealth fed w =
     (let r = on_ping fed (length (requests w));
          w1 = request (PingReq (dh_satelliteId w)) w
      in case ping_result r of
           Threw \<Rightarrow> ((False, latency_ms r), w1)
         | Resolved d e \<Rightarrow> ((\<not> e, latency_ms r), w1))"

section \<open>useDualHemisphere: reasoning\<close>

text \<open>\<^verbatim>\<open>s || ''\<close>\<close>

definition text_or_empty :: "string option \<Rightarrow> string" where
  "text_or_empty s = (case s of None \<Rightarrow> [] | Some x \<Rightarrow> x)"

text \<open>\<^verbatim>\<open>c || d\<close> on a number: absent and zero both give the default.\<close>

definition number_or :: "real option \<Rightarrow> real \<Rightarrow> real" where
  "number_or c d = (case c of None \<Rightarrow> d | Some x \<Rightarrow> if x = 0 then d else x)"

definition primary_answer :: "reasoning_data \<Rightarrow> reasoning_result" where
  "primary_answer d = \<lparr>
     response = text_or_empty (d_response d),
     result_confidence = number_or (d_confidence d) 0.8,
     result_hemisphere = or_default (d_dominant_hemisphere d) Fused,
     reasoning_trace = or_default (d_reasoning_trace d) [],
     governance_validated = or_default (d_governance_validated d) True \<rparr>"

definition sovereign_answer :: "reasoning_data \<Rightarrow> reasoning_result" where
  "sovereign_answer d = \<lparr>
     response = text_or_empty (d_response d),
     result_confidence = number_or (d_confidence d) 0.75,
     result_hemisphere = Fused,
     reasoning_trace = or_default (d_reasoning_trace d) [''SOVEREIGN_MODE''],
     governance_validated = or_default (d_governance_validated d) True \<rparr>"

text \<open>
  \<^verbatim>\<open>prev => [...prev.slice(-9), { role: 'user', content: q }, { role: 'assistant', content: a }]\<close>
\<close>

definition remember :: "string \<Rightarrow> string option \<Rightarrow> dual_hemisphere \<Rightarrow> dual_hemisphere" where
  "remember q a w = w\<lparr>localMemory := slice_last 9 (localMemory w) @
     [\<lparr> w_role = ''user'', w_content = Some q \<rparr>,
      \<lparr> w_role = ''assistant'', w_content = a \<rparr>]\<rparr>"

text \<open>
  A rejected call and a reported error leave the function by an exception (\<open>Inl\<close>)
  before the window is touched. On data that is \<^verbatim>\<open>null\<close> the updater is queued
  first, and \<^verbatim>\<open>data.response\<close> then throws twice: in the \<^verbatim>\<open>return\<close> statement, which
  ends the function by an exception, and in the updater when React runs it.
\<close>

definition processSovereign ::
  "federation \<Rightarrow> string \<Rightarrow> governance_mode \<Rightarrow> dual_hemisphere
     \<Rightarrow> (js_error + reasoning_result) \<times> dual_hemisphere" where
  "processSovereign fed query gm w =
     (let w1 = request (SovereignReq query gm (slice_last 10 (localMemory w))) w
      in case on_sovereign fed (length (requests w)) of
           Threw \<Rightarrow> (Inl InvokeRejected, w1)
         | Resolved d e \<Rightarrow>
             if e then (Inl BackendError, w1)
             else (case d of
                     None \<Rightarrow> (Inl TypeError, w1\<lparr>window_error := True\<rparr>)
                   | Some data \<Rightarrow>
                       (Inr (sovereign_answer data), remember query (d_response data) w1)))"

text \<open>
  The statements that \<^verbatim>\<open>process\<close> has three times:
  \<^verbatim>\<open>setIsSovereign(true); const r = await processSovereign(...); setLastResult(r); return r\<close>.
\<close>

definition failover ::
  "federation \<Rightarrow> string \<Rightarrow> governance_mode \<Rightarrow> dual_hemisphere
     \<Rightarrow> (js_error + reasoning_result) \<times> dual_hemisphere" where
  "failover fed query gm w =
     (case processSovereign fed query gm (w\<lparr>isSovereign := True\<rparr>) of
        (Inl err, w1) \<Rightarrow> (Inl err, w1)
      | (Inr r, w1) \<Rightarrow> (Inr r, w1\<lparr>lastResult := Some r\<rparr>))"

text \<open>
  The \<^verbatim>\<open>try\<close> block of \<^verbatim>\<open>process\<close>, entered after \<^verbatim>\<open>setIsSovereign(false)\<close>. The
  branch for a reported error awaits \<^verbatim>\<open>processSovereign\<close> inside the \<^verbatim>\<open>try\<close>, so an
  exception from it reaches the \<^verbatim>\<open>catch\<close>, which runs the same statements again.
\<close>

definition try_primary ::
  "federation \<Rightarrow> string \<Rightarrow> governance_mode \<Rightarrow> dual_hemisphere
     \<Rightarrow> (js_error + reasoning_result) \<times> dual_hemisphere" where
  "try_primary fed query gm w =
     (let w1 = request (ChatReq query gm) w
      in case on_chat fed (length (requests w)) of
           Threw \<Rightarrow> failover fed query gm w1
         | Resolved d e \<Rightarrow>
             if e then
               (case failover fed query gm w1 of
                  (Inl err, w2) \<Rightarrow> failover fed query gm w2
                | (Inr r, w2) \<Rightarrow> (Inr r, w2))
             else (case d of
                     None \<Rightarrow> failover fed query gm w1
                   | Some data \<Rightarrow>
                       (Inr (primary_answer data),
                        (remember query (Some (response (primary_answer data))) w1)
                          \<lparr>lastResult := Some (primary_answer data)\<rparr>)))"

definition process ::
  "federation \<Rightarrow> string \<Rightarrow> governance_mode \<Rightarrow> dual_hemisphere
     \<Rightarrow> (js_error + reasoning_result) \<times> dual_hemisphere" where
  "process fed query gm w =
     (case checkFederationHealth fed w of
        ((federationHealthy, waited), w1) \<Rightarrow>
          if \<not> federationHealthy then failover fed query gm w1
          else try_primary fed query gm (w1\<lparr>isSovereign := False\<rparr>))"

definition forceSovereign :: "bool \<Rightarrow> dual_hemisphere \<Rightarrow> dual_hemisphere" where
  "forceSovereign enabled w = w\<lparr>isSovereign := enabled\<rparr>"

definition clearLocalMemory :: "dual_hemisphere \<Rightarrow> dual_hemisphere" where
  "clearLocalMemory w = w\<lparr>localMemory := []\<rparr>"

text \<open>Calls of \<^verbatim>\<open>process\<close> one after the other, each awaited; a failed call is passed over.\<close>

fun process_seq ::
  "federation \<Rightarrow> governance_mode \<Rightarrow> string list \<Rightarrow> dual_hemisphere \<Rightarrow> dual_hemisphere" where
  "process_seq fed gm [] w = w"
| "process_seq fed gm (q # qs) w = process_seq fed gm qs (snd (process fed q gm w))"

section \<open>Outcomes of the rehydrate call\<close>

text \<open>
  The call failed: it was rejected, it reported an error, or it resolved with neither an
  error nor data (then reading \<^verbatim>\<open>data.context\<close> throws).
\<close>

definition rehydrate_failed :: "rehydrate_data invoke_result \<Rightarrow> bool" where
  "rehydrate_failed r = (case r of Threw \<Rightarrow> True | Resolved d e \<Rightarrow> e \<or> d = None)"

text \<open>The call succeeded: no error, and data.\<close>

definition rehydrate_succeeded :: "rehydrate_data invoke_result \<Rightarrow> rehydrate_data option" where
  "rehydrate_succeeded r = (case r of Threw \<Rightarrow> None | Resolved d e \<Rightarrow> if e then None else d)"

text \<open>
  What \<^verbatim>\<open>loadFromLocalStorage\<close> gets to parse: nothing when the read throws or there
  is no item.
\<close>

definition readable_item :: "edge_hook \<Rightarrow> stored option" where
  "readable_item w =
     (if read_denied (localStorage w) then None
      else items (localStorage w) (cache_key (satelliteId w)))"

text \<open>
  The ways in which the \<^verbatim>\<open>try\<close> block of \<^verbatim>\<open>saveToLocalStorage\<close> ends in its
  \<^verbatim>\<open>catch\<close>: the read throws, the existing item does not parse, or the write throws.
\<close>

definition cache_write_fails :: "edge_hook \<Rightarrow> bool" where
  "cache_write_fails w =
     (read_denied (localStorage w)
      \<or> items (localStorage w) (cache_key (satelliteId w)) = Some Unparsable
      \<or> write_refused (localStorage w))"

section \<open>Requests of the insight fan-out\<close>

text \<open>The \<^verbatim>\<open>sourceMode\<close> that \<^verbatim>\<open>storeMemory\<close> sends.\<close>

definition source_mode_of :: "edge_hook \<Rightarrow> source_mode" where
  "source_mode_of w = (if isOnline (state w) then SrcFederated else SrcSovereign)"

text \<open>The requests that \<^verbatim>\<open>evolveKnowledge\<close> and \<^verbatim>\<open>storeMemory\<close> send for an item.\<close>

definition evolve_request :: "string \<Rightarrow> string \<Rightarrow> insight_item \<Rightarrow> edge_request" where
  "evolve_request uid ty p = EvolveKnowledgeReq uid ty (i_key p) (i_value p)"

definition store_request :: "string \<Rightarrow> source_mode \<Rightarrow> insight_fact \<Rightarrow> edge_request" where
  "store_request uid mode f = StoreMemoryReq uid (fact_memory f) mode"

section \<open>Outcomes of the remote reasoning calls\<close>

text \<open>The verdict of the health check.\<close>

definition healthy :: "federation \<Rightarrow> dual_hemisphere \<Rightarrow> bool" where
  "healthy fed w = fst (fst (checkFederationHealth fed w))"

text \<open>
  What a call of the sovereign function amounts to for \<^verbatim>\<open>processSovereign\<close>: an
  exception or a result.
\<close>

definition sovereign_outcome :: "reasoning_data invoke_result \<Rightarrow> js_error + reasoning_result" where
  "sovereign_outcome r =
     (case r of
        Threw \<Rightarrow> Inl InvokeRejected
      | Resolved d e \<Rightarrow>
          if e then Inl BackendError
          else (case d of None \<Rightarrow> Inl TypeError | Some data \<Rightarrow> Inr (sovereign_answer data)))"

text \<open>
  The primary call failed: it was rejected, it reported an error, or it resolved with
  neither an error nor data (then reading \<^verbatim>\<open>data.response\<close> throws inside the
  \<^verbatim>\<open>try\<close>).
\<close>

definition primary_failed :: "reasoning_data invoke_result \<Rightarrow> bool" where
  "primary_failed r = (case r of Threw \<Rightarrow> True | Resolved d e \<Rightarrow> e \<or> d = None)"

section \<open>Scenarios\<close>

text \<open>Concrete hooks, backends and inputs on which the properties below are run.\<close>

definition note_input :: memory_input where
  "note_input = \<lparr> mi_content = ''prefers tea'', mi_memoryType = ''fact'',
     mi_importance = ''low'', mi_topicTags = None \<rparr>"

definition unreachable_backend :: edge_backend where
  "unreachable_backend = \<lparr> on_rehydrate = (\<lambda>n. Threw), on_store_memory = (\<lambda>n. Threw),
     on_evolve_knowledge = (\<lambda>n. Threw), on_sync_session = (\<lambda>n. Threw),
     on_extract_insights = (\<lambda>n. Threw) \<rparr>"

definition erroring_backend :: edge_backend where
  "erroring_backend = \<lparr> on_rehydrate = (\<lambda>n. Resolved None True),
     on_store_memory = (\<lambda>n. Resolved None True),
     on_evolve_knowledge = (\<lambda>n. Resolved None True),
     on_sync_session = (\<lambda>n. Resolved None True),
     on_extract_insights = (\<lambda>n. Resolved None True) \<rparr>"

definition sample_session :: session_state where
  "sample_session = \<lparr> conversationSummary = None, activeContext = Map.empty,
     pendingTopics = [], communicationStyle = ''casual'', verbosityPreference = ''brief'',
     totalInteractions = 4, totalSessions = 2 \<rparr>"

definition sample_rehydration :: rehydrate_data where
  "sample_rehydration = \<lparr>
     r_context = Some \<lparr> c_memories = Some [with_confidence note_input 0.9],
                        c_knowledge = None, c_session = Some sample_session \<rparr>,
     r_isReturningUser = True, r_greeting = ''Welcome back'' \<rparr>"

definition serving_backend :: edge_backend where
  "serving_backend = \<lparr> on_rehydrate = (\<lambda>n. Resolved (Some sample_rehydration) False),
     on_store_memory = (\<lambda>n. Resolved None False),
     on_evolve_knowledge = (\<lambda>n. Resolved None False),
     on_sync_session = (\<lambda>n. Resolved None False),
     on_extract_insights = (\<lambda>n. Resolved None False) \<rparr>"

definition cached_snapshot :: snapshot where
  "cached_snapshot = empty_snapshot\<lparr> s_memories := Some [with_confidence note_input 0.5] \<rparr>"

definition anonymous_hook :: edge_hook where
  "anonymous_hook = storeMemory unreachable_backend note_input
     (useEdgeMemory ''sat'' ''sid'' (working_storage Map.empty))"

definition cached_hook :: edge_hook where
  "cached_hook = useEdgeMemory ''sat'' ''sid''
     (working_storage [cache_key ''sat'' \<mapsto> Blob cached_snapshot])"

definition corrupted_hook :: edge_hook where
  "corrupted_hook = useEdgeMemory ''sat'' ''sid''
     (working_storage [cache_key ''sat'' \<mapsto> Unparsable])"

text \<open>A hook whose cache item is the text \<^verbatim>\<open>null\<close>, and one whose storage is full.\<close>

definition null_cache_hook :: edge_hook where
  "null_cache_hook = useEdgeMemory ''sat'' ''sid''
     (working_storage [cache_key ''sat'' \<mapsto> JsonNull])"

definition full_storage_hook :: edge_hook where
  "full_storage_hook = useEdgeMemory ''sat'' ''sid''
     ((working_storage Map.empty)\<lparr>write_refused := True\<rparr>)"

text \<open>Memories with distinct contents: the \<open>n\<close>-th has \<open>n\<close> letters.\<close>

definition numbered_note :: "nat \<Rightarrow> memory_input" where
  "numbered_note n = \<lparr> mi_content = replicate n (CHR ''x''), mi_memoryType = ''fact'',
     mi_importance = ''low'', mi_topicTags = None \<rparr>"

definition fresh_hook :: edge_hook where
  "fresh_hook = useEdgeMemory ''sat'' ''sid'' (working_storage Map.empty)"

definition signed_in_hook :: edge_hook where
  "signed_in_hook = onAuthStateChange serving_backend 7 (Some ''u'') fresh_hook"

definition style_update :: session_update where
  "style_update = \<lparr> u_conversationSummary = None, u_activeContext = None,
     u_pendingTopics = None, u_communicationStyle = Some ''formal'',
     u_verbosityPreference = None, u_totalInteractions = None, u_totalSessions = None \<rparr>"

definition three_facts :: "insight_fact list" where
  "three_facts = [\<lparr> f_content = ''lives in Lyon'', f_importance = ''high'' \<rparr>,
                  \<lparr> f_content = ''has two cats'', f_importance = ''low'' \<rparr>,
                  \<lparr> f_content = ''works nights'', f_importance = ''medium'' \<rparr>]"

definition facts_only :: insights_data where
  "facts_only = \<lparr> success = True,
     insights_of = Some \<lparr> preferences = None, patterns = Some [], facts = Some three_facts \<rparr> \<rparr>"

definition insight_backend :: edge_backend where
  "insight_backend = serving_backend\<lparr> on_extract_insights := (\<lambda>n. Resolved (Some facts_only) False) \<rparr>"

definition mixed_insights :: insights_data where
  "mixed_insights = \<lparr> success = True,
     insights_of = Some \<lparr>
       preferences = Some [\<lparr> i_key = ''tone'', i_value = JStr ''dry'', i_confidence = Some 0.6 \<rparr>,
                           \<lparr> i_key = ''drink'', i_value = JStr ''tea'', i_confidence = Some 0.61 \<rparr>],
       patterns = Some [\<lparr> i_key = ''late'', i_value = JBool True, i_confidence = Some 0.5 \<rparr>,
                        \<lparr> i_key = ''brief'', i_value = JBool True, i_confidence = Some 0.51 \<rparr>,
                        \<lparr> i_key = ''vague'', i_value = JNull, i_confidence = None \<rparr>],
       facts = Some [\<lparr> f_content = ''has two cats'', f_importance = ''low'' \<rparr>] \<rparr> \<rparr>"

definition mixed_backend :: edge_backend where
  "mixed_backend = serving_backend\<lparr> on_extract_insights := (\<lambda>n. Resolved (Some mixed_insights) False) \<rparr>"

definition short_talk :: "turn list" where
  "short_talk = [\<lparr> t_role = ''user'', t_content = ''hello'' \<rparr>,
                 \<lparr> t_role = ''assistant'', t_content = ''hi'' \<rparr>]"

definition sample_answer :: reasoning_data where
  "sample_answer = \<lparr> d_response = Some ''ok'', d_confidence = None,
     d_dominant_hemisphere = None, d_reasoning_trace = None, d_governance_validated = None \<rparr>"

definition quick_ping :: ping_reply where
  "quick_ping = \<lparr> latency_ms = 40, ping_result = Resolved None False \<rparr>"

definition slow_ping :: ping_reply where
  "slow_ping = \<lparr> latency_ms = 5000, ping_result = Resolved None False \<rparr>"

definition lost_ping :: ping_reply where
  "lost_ping = \<lparr> latency_ms = 900, ping_result = Threw \<rparr>"

definition answering_federation :: federation where
  "answering_federation = \<lparr> on_ping = (\<lambda>n. quick_ping),
     on_chat = (\<lambda>n. Resolved (Some sample_answer) False),
     on_sovereign = (\<lambda>n. Threw) \<rparr>"

definition offline_federation :: federation where
  "offline_federation = \<lparr> on_ping = (\<lambda>n. lost_ping),
     on_chat = (\<lambda>n. Resolved (Some sample_answer) False),
     on_sovereign = (\<lambda>n. Resolved (Some sample_answer) False) \<rparr>"

definition slow_federation :: federation where
  "slow_federation = answering_federation\<lparr> on_ping := (\<lambda>n. slow_ping) \<rparr>"

text \<open>The primary reports an error; the sovereign function fails once and then answers.\<close>

definition recovering_federation :: federation where
  "recovering_federation = \<lparr> on_ping = (\<lambda>n. quick_ping),
     on_chat = (\<lambda>n. Resolved None True),
     on_sovereign = (\<lambda>n. if n = 2 then Resolved None True
                           else Resolved (Some sample_answer) False) \<rparr>"

definition fresh_core :: dual_hemisphere where
  "fresh_core = useDualHemisphere ''sat''"

text \<open>A hook that has just answered a query in sovereign mode.\<close>

definition stranded_core :: dual_hemisphere where
  "stranded_core = snd (process offline_federation ''first'' Standard fresh_core)"

section \<open>Properties of storeMemory\<close>

lemma length_slice_last: "length (slice_last n xs) = min n (length xs)"
  by (simp add: slice_last_def)

lemma slice_last_snoc:
  "slice_last (Suc n) (xs @ [x]) = slice_last n xs @ [x]"
  by (simp add: slice_last_def Suc_diff_le)

lemma slice_last_append_long:
  "n \<le> length zs \<Longrightarrow> slice_last n (ys @ zs) = slice_last n zs"
  by (simp add: slice_last_def)

lemma slice_last_inner:
  "n \<le> k + length zs \<Longrightarrow> slice_last n (slice_last k xs @ zs) = slice_last n (xs @ zs)"
proof -
  assume le: "n \<le> k + length zs"
  let ?d = "length xs - k"
  have len: "n \<le> length (drop ?d xs @ zs) \<or> ?d = 0" using le by auto
  show ?thesis
  proof (cases "?d = 0")
    case True
    then show ?thesis by (simp add: slice_last_def)
  next
    case False
    with len have n: "n \<le> length (drop ?d xs @ zs)" by simp
    have "slice_last n (xs @ zs) = slice_last n (take ?d xs @ (drop ?d xs @ zs))"
      by (simp only: append_assoc [symmetric] append_take_drop_id)
    also have "\<dots> = slice_last n (drop ?d xs @ zs)"
      by (rule slice_last_append_long [OF n])
    finally show ?thesis by (simp only: slice_last_def [of k xs])
  qed
qed

lemma memories_storeMemory:
  "memories (state (storeMemory be m w)) =
     slice_last 49 (memories (state w)) @ [with_confidence m 0.5]"
  by (simp add: storeMemory_def setState_def appendMemory_def send_def Let_def
      split: option.splits invoke_result.splits)

lemma userIdRef_storeMemory: "userIdRef (storeMemory be m w) = userIdRef w"
  by (simp add: storeMemory_def setState_def send_def Let_def
      split: option.splits invoke_result.splits)

lemma memories_storeMemory_seq:
  "length (memories (state w)) \<le> 50 \<Longrightarrow>
   memories (state (storeMemory_seq be ms w)) =
     slice_last 50 (memories (state w) @ map (\<lambda>m. with_confidence m 0.5) ms)"
proof (induction ms arbitrary: w)
  case Nil
  then show ?case by (simp add: slice_last_def)
next
  case (Cons m ms)
  let ?w1 = "storeMemory be m w"
  let ?f = "\<lambda>m. with_confidence m 0.5"
  have len: "length (memories (state ?w1)) \<le> 50"
    by (simp add: memories_storeMemory length_slice_last)
  have "memories (state (storeMemory_seq be (m # ms) w)) =
          slice_last 50 (memories (state ?w1) @ map ?f ms)"
    using Cons.IH [OF len] by simp
  also have "\<dots> = slice_last 50 (slice_last 49 (memories (state w)) @ (?f m # map ?f ms))"
    by (simp add: memories_storeMemory)
  also have "\<dots> = slice_last 50 (memories (state w) @ (?f m # map ?f ms))"
    by (rule slice_last_inner) simp
  finally show ?case by simp
qed

lemma map_slice_last: "map f (slice_last n xs) = slice_last n (map f xs)"
  by (simp add: slice_last_def drop_map)

lemma set_slice_last: "r \<in> set (slice_last n xs) \<Longrightarrow> r \<in> set xs"
  by (auto simp add: slice_last_def dest: in_set_dropD)

text \<open>
  C1. Starting from the hook's initial state, with or without an identity and whatever
  the backend does on each call (resolve, resolve with an error, or throw), the memories
  after any sequence of \<^verbatim>\<open>storeMemory\<close> calls are the last 50 of the stored records, in
  the order of the calls: each has the content, type, importance and tags it was stored
  with, and confidence 0.5. So the contents are the last 50 of the contents given, in
  order, every confidence in the list is 0.5, and the list has \<open>min 50 n\<close> entries after
  \<open>n\<close> calls, never more than 50.
\<close>

theorem storeMemory_bounded_recent:
  "memories (state (storeMemory_seq be ms
       ((useEdgeMemory sat sid store)\<lparr>userIdRef := uid\<rparr>))) =
     slice_last 50 (map (\<lambda>m. \<lparr> content = mi_content m, memoryType = mi_memoryType m,
        importance = mi_importance m, confidence = 0.5, topicTags = mi_topicTags m \<rparr>) ms)
   \<and> length (memories (state (storeMemory_seq be ms
       ((useEdgeMemory sat sid store)\<lparr>userIdRef := uid\<rparr>)))) = min 50 (length ms)
   \<and> length (memories (state (storeMemory_seq be ms
       ((useEdgeMemory sat sid store)\<lparr>userIdRef := uid\<rparr>)))) \<le> 50
   \<and> (\<forall>r \<in> set (memories (state (storeMemory_seq be ms
       ((useEdgeMemory sat sid store)\<lparr>userIdRef := uid\<rparr>)))). confidence r = 0.5)
   \<and> map content (memories (state (storeMemory_seq be ms
       ((useEdgeMemory sat sid store)\<lparr>userIdRef := uid\<rparr>)))) =
       slice_last 50 (map mi_content ms)
   \<and> map memoryType (memories (state (storeMemory_seq be ms
       ((useEdgeMemory sat sid store)\<lparr>userIdRef := uid\<rparr>)))) =
       slice_last 50 (map mi_memoryType ms)
   \<and> map importance (memories (state (storeMemory_seq be ms
       ((useEdgeMemory sat sid store)\<lparr>userIdRef := uid\<rparr>)))) =
       slice_last 50 (map mi_importance ms)
   \<and> map topicTags (memories (state (storeMemory_seq be ms
       ((useEdgeMemory sat sid store)\<lparr>userIdRef := uid\<rparr>)))) =
       slice_last 50 (map mi_topicTags ms)"
proof -
  let ?w = "(useEdgeMemory sat sid store)\<lparr>userIdRef := uid\<rparr>"
  let ?f = "\<lambda>m. \<lparr> content = mi_content m, memoryType = mi_memoryType m,
        importance = mi_importance m, confidence = 0.5, topicTags = mi_topicTags m \<rparr>"
  let ?mems = "memories (state (storeMemory_seq be ms ?w))"
  have init: "memories (state ?w) = []"
    by (simp add: useEdgeMemory_def initial_state_def)
  have eq: "?mems = slice_last 50 (map ?f ms)"
    using memories_storeMemory_seq [of ?w be ms] init by (simp add: with_confidence_def)
  have len: "length ?mems = min 50 (length ms)"
    unfolding eq by (simp add: length_slice_last)
  have conf: "\<forall>r \<in> set ?mems. confidence r = 0.5"
  proof
    fix r assume "r \<in> set ?mems"
    then have "r \<in> set (map ?f ms)" unfolding eq by (rule set_slice_last)
    then show "confidence r = 0.5" by auto
  qed
  have c: "map content ?mems = slice_last 50 (map mi_content ms)"
    and t: "map memoryType ?mems = slice_last 50 (map mi_memoryType ms)"
    and i: "map importance ?mems = slice_last 50 (map mi_importance ms)"
    and g: "map topicTags ?mems = slice_last 50 (map mi_topicTags ms)"
    unfolding eq by (simp_all add: map_slice_last o_def)
  from len have le: "length ?mems \<le> 50" by simp
  from eq len le conf c t i g show ?thesis by blast
qed

theorem storeMemory_bounded_recent_witness:
  "map content (memories (state (storeMemory_seq unreachable_backend
       (map numbered_note [0..<52])
       ((useEdgeMemory ''sat'' ''sid'' (working_storage Map.empty))\<lparr>userIdRef := Some ''u''\<rparr>)))) =
     map (\<lambda>n. replicate n (CHR ''x'')) [2..<52]
   \<and> length (memories (state (storeMemory_seq unreachable_backend
       (map numbered_note [0..<52])
       ((useEdgeMemory ''sat'' ''sid'' (working_storage Map.empty))\<lparr>userIdRef := Some ''u''\<rparr>)))) = 50
   \<and> map confidence (memories (state (storeMemory_seq unreachable_backend
       (map numbered_note [0..<52])
       ((useEdgeMemory ''sat'' ''sid'' (working_storage Map.empty))\<lparr>userIdRef := Some ''u''\<rparr>)))) =
     replicate 50 0.5
   \<and> memories (state (storeMemory_seq serving_backend [numbered_note 1, numbered_note 2]
       ((useEdgeMemory ''sat'' ''sid'' (working_storage Map.empty))\<lparr>userIdRef := None\<rparr>))) =
     [\<lparr> content = ''x'', memoryType = ''fact'', importance = ''low'', confidence = 0.5,
         topicTags = None \<rparr>,
      \<lparr> content = ''xx'', memoryType = ''fact'', importance = ''low'', confidence = 0.5,
         topicTags = None \<rparr>]"
proof -
  note a = storeMemory_bounded_recent [where be = unreachable_backend
      and ms = "map numbered_note [0..<52]" and sat = "''sat''" and sid = "''sid''"
      and store = "working_storage Map.empty" and uid = "Some ''u''"]
  note b = storeMemory_bounded_recent [where be = serving_backend
      and ms = "[numbered_note 1, numbered_note 2]" and sat = "''sat''" and sid = "''sid''"
      and store = "working_storage Map.empty" and uid = None, THEN conjunct1]
  have c: "slice_last 50 (map mi_content (map numbered_note [0..<52])) =
      map (\<lambda>n. replicate n (CHR ''x'')) [2..<52]"
    by code_simp
  have one: "replicate 1 (CHR ''x'') = ''x''" and two: "replicate 2 (CHR ''x'') = ''xx''"
    by (simp_all add: numeral_2_eq_2)
  note len = a [THEN conjunct2, THEN conjunct1]
  note conf = a [THEN conjunct2, THEN conjunct2, THEN conjunct2, THEN conjunct1]
  note cont = a [THEN conjunct2, THEN conjunct2, THEN conjunct2, THEN conjunct2, THEN conjunct1]
  from cont have "map content (memories (state (storeMemory_seq unreachable_backend
       (map numbered_note [0..<52])
       ((useEdgeMemory ''sat'' ''sid'' (working_storage Map.empty))\<lparr>userIdRef := Some ''u''\<rparr>)))) =
     map (\<lambda>n. replicate n (CHR ''x'')) [2..<52]"
    unfolding c .
  moreover from len have "length (memories (state (storeMemory_seq unreachable_backend
       (map numbered_note [0..<52])
       ((useEdgeMemory ''sat'' ''sid'' (working_storage Map.empty))\<lparr>userIdRef := Some ''u''\<rparr>)))) = 50"
    by simp
  moreover have "map confidence (memories (state (storeMemory_seq unreachable_backend
       (map numbered_note [0..<52])
       ((useEdgeMemory ''sat'' ''sid'' (working_storage Map.empty))\<lparr>userIdRef := Some ''u''\<rparr>)))) =
     replicate 50 0.5"
  proof -
    let ?mems = "memories (state (storeMemory_seq unreachable_backend
       (map numbered_note [0..<52])
       ((useEdgeMemory ''sat'' ''sid'' (working_storage Map.empty))\<lparr>userIdRef := Some ''u''\<rparr>)))"
    from conf have "\<forall>y \<in> set (map confidence ?mems). y = 0.5" by auto
    then have "replicate (length (map confidence ?mems)) 0.5 = map confidence ?mems"
      by (rule replicate_length_same)
    moreover from len have "length (map confidence ?mems) = 50" by simp
    ultimately show ?thesis by simp
  qed
  moreover from b have "memories (state (storeMemory_seq serving_backend
       [numbered_note 1, numbered_note 2]
       ((useEdgeMemory ''sat'' ''sid'' (working_storage Map.empty))\<lparr>userIdRef := None\<rparr>))) =
     [\<lparr> content = ''x'', memoryType = ''fact'', importance = ''low'', confidence = 0.5,
         topicTags = None \<rparr>,
      \<lparr> content = ''xx'', memoryType = ''fact'', importance = ''low'', confidence = 0.5,
         topicTags = None \<rparr>]"
    by (simp add: slice_last_def numbered_note_def one two)
  ultimately show ?thesis by blast
qed

section \<open>Properties of rehydration\<close>

lemmas edge_scenarios = note_input_def unreachable_backend_def erroring_backend_def
  sample_session_def sample_rehydration_def serving_backend_def cached_snapshot_def
  anonymous_hook_def cached_hook_def corrupted_hook_def fresh_hook_def signed_in_hook_def
  style_update_def null_cache_hook_def full_storage_hook_def

lemmas edge_code = useEdgeMemory_def initial_state_def setState_def identity_def send_def
  with_confidence_def appendMemory_def storeMemory_def loadFromLocalStorage_def
  saveToLocalStorage_def setItem_def merge_snapshot_def empty_snapshot_def spread_def
  assign_def newState_of_def context_field_def go_offline_def rehydrateInternal_def
  onAuthStateChange_def or_default_def or_null_def slice_last_def working_storage_def
  readable_item_def cache_write_fails_def

lemma go_offline_state:
  "state (go_offline w) =
     (case readable_item w of
        Some (Blob b) \<Rightarrow> (state w)\<lparr>memories := or_default (s_memories b) [],
            knowledge := or_default (s_knowledge b) Map.empty,
            session := or_null (s_session b), isOnline := False, isLoading := False\<rparr>
      | _ \<Rightarrow> (state w)\<lparr>isOnline := False, isLoading := False\<rparr>)"
  by (simp add: go_offline_def loadFromLocalStorage_def setState_def readable_item_def
      split: option.splits stored.splits)

lemma go_offline_storage: "localStorage (go_offline w) = localStorage w"
  by (simp add: go_offline_def loadFromLocalStorage_def setState_def
      split: option.splits stored.splits)

lemma go_offline_render_error:
  "render_error (go_offline w) = (render_error w \<or> readable_item w = Some JsonNull)"
  by (simp add: go_offline_def loadFromLocalStorage_def setState_def readable_item_def
      split: option.splits stored.splits)

lemma readable_item_send [simp]: "readable_item (send r w) = readable_item w"
  by (simp add: readable_item_def send_def)

lemma rehydrateInternal_failed:
  "rehydrate_failed (on_rehydrate be (length (invoked w))) \<Longrightarrow>
   rehydrateInternal be now uid w =
     go_offline (send (RehydrateReq uid (satelliteId w) (currentSessionId w)) w)"
  by (auto simp add: rehydrateInternal_def rehydrate_failed_def Let_def
      split: invoke_result.splits option.splits)

lemma rehydrateInternal_succeeded:
  "rehydrate_succeeded (on_rehydrate be (length (invoked w))) = Some d \<Longrightarrow>
   rehydrateInternal be now uid w =
     saveToLocalStorage now (newState_of d now)
       (setState (assign (newState_of d now))
          (send (RehydrateReq uid (satelliteId w) (currentSessionId w)) w))"
  by (auto simp add: rehydrateInternal_def rehydrate_succeeded_def Let_def
      split: invoke_result.splits option.splits if_splits)

lemma state_saveToLocalStorage: "state (saveToLocalStorage now data w) = state w"
  by (simp add: saveToLocalStorage_def setItem_def Let_def split: option.splits stored.splits)

lemma render_error_saveToLocalStorage:
  "render_error (saveToLocalStorage now data w) = render_error w"
  by (simp add: saveToLocalStorage_def setItem_def Let_def split: option.splits stored.splits)

lemma assign_newState:
  "assign (newState_of d now) prev = \<lparr>
     memories = or_default (context_field c_memories d) [],
     knowledge = or_default (context_field c_knowledge d) Map.empty,
     session = context_field c_session d,
     isReturningUser = r_isReturningUser d,
     greeting = r_greeting d,
     isLoading = False, isOnline = True, lastSyncAt = Some now \<rparr>"
  by (simp add: assign_def newState_of_def or_default_def)

lemma saveToLocalStorage_fails:
  "cache_write_fails w \<Longrightarrow> saveToLocalStorage now data w = w"
  by (auto simp add: cache_write_fails_def saveToLocalStorage_def setItem_def Let_def
      split: option.splits stored.splits)

lemma saveToLocalStorage_writes:
  "\<not> cache_write_fails w \<Longrightarrow>
   items (localStorage (saveToLocalStorage now data w)) (cache_key (satelliteId w)) =
     Some (Blob (merge_snapshot
       (case items (localStorage w) (cache_key (satelliteId w)) of
          Some (Blob parsed) \<Rightarrow> parsed | _ \<Rightarrow> empty_snapshot) data now))"
  by (auto simp add: cache_write_fails_def saveToLocalStorage_def setItem_def Let_def
      split: option.splits stored.splits)

text \<open>
  A cache item that is \<^verbatim>\<open>null\<close>: when the rehydrate call fails, the fallback queues an
  updater that throws while the component renders.
\<close>

lemma rehydrate_failure_null_item:
  "rehydrate_failed (on_rehydrate be (length (invoked w))) \<Longrightarrow>
   readable_item w = Some JsonNull \<Longrightarrow>
   render_error (rehydrateInternal be now uid w)"
  by (simp add: rehydrateInternal_failed go_offline_render_error)

text \<open>
  A hook that stored one memory while anonymous has no cache item. When an identity
  arrives and the rehydrate call is rejected, the memory is still in the state: with no
  cache item, the state is not reset to an empty snapshot.
\<close>

theorem rehydrate_failure_without_cache_counterexample:
  "\<not> read_denied (localStorage anonymous_hook)
   \<and> items (localStorage anonymous_hook) (cache_key (satelliteId anonymous_hook)) = None
   \<and> on_rehydrate unreachable_backend (length (invoked anonymous_hook)) = Threw
   \<and> memories (state (rehydrateInternal unreachable_backend 0 ''u'' anonymous_hook))
       = [with_confidence note_input 0.5]
   \<and> memories (state (rehydrateInternal unreachable_backend 0 ''u'' anonymous_hook)) \<noteq> []"
  by (simp add: edge_scenarios edge_code)

text \<open>
  C3 (amended). When the rehydrate call fails and the cache item is not the text
  \<^verbatim>\<open>null\<close>, the hook is offline afterwards, the cache is untouched and no updater that
  throws has been queued. If the cache can be read and holds a JSON object, memories,
  knowledge and session are those of the cache, a missing field read as empty. If the
  read throws, there is no cache item, or it does not parse, memories, knowledge and
  session stay what they were before the call.
\<close>

theorem rehydrate_failure_keeps_or_loads:
  assumes "rehydrate_failed (on_rehydrate be (length (invoked w)))"
    and "readable_item w \<noteq> Some JsonNull"
  shows "isOnline (state (rehydrateInternal be now uid w)) = False
    \<and> localStorage (rehydrateInternal be now uid w) = localStorage w
    \<and> render_error (rehydrateInternal be now uid w) = render_error w
    \<and> (case readable_item w of
         Some (Blob b) \<Rightarrow>
           memories (state (rehydrateInternal be now uid w)) = or_default (s_memories b) []
           \<and> knowledge (state (rehydrateInternal be now uid w)) = or_default (s_knowledge b) Map.empty
           \<and> session (state (rehydrateInternal be now uid w)) = or_null (s_session b)
       | _ \<Rightarrow>
           memories (state (rehydrateInternal be now uid w)) = memories (state w)
           \<and> knowledge (state (rehydrateInternal be now uid w)) = knowledge (state w)
           \<and> session (state (rehydrateInternal be now uid w)) = session (state w))"
proof -
  let ?w1 = "send (RehydrateReq uid (satelliteId w) (currentSessionId w)) w"
  have eq: "rehydrateInternal be now uid w = go_offline ?w1"
    by (rule rehydrateInternal_failed [OF assms(1)])
  have r: "readable_item ?w1 = readable_item w"
    by simp
  have a: "state ?w1 = state w" "localStorage ?w1 = localStorage w"
      "render_error ?w1 = render_error w"
    by (simp_all add: send_def)
  show ?thesis
    unfolding eq using assms(2)
    by (simp add: go_offline_state go_offline_storage go_offline_render_error r a
        split: option.splits stored.splits)
qed

theorem rehydrate_failure_keeps_or_loads_witness:
  "rehydrate_failed (on_rehydrate unreachable_backend (length (invoked cached_hook)))
   \<and> readable_item cached_hook = Some (Blob cached_snapshot)
   \<and> isOnline (state (rehydrateInternal unreachable_backend 0 ''u'' cached_hook)) = False
   \<and> memories (state (rehydrateInternal unreachable_backend 0 ''u'' cached_hook))
       = [with_confidence note_input 0.5]
   \<and> rehydrate_failed (on_rehydrate erroring_backend (length (invoked anonymous_hook)))
   \<and> readable_item anonymous_hook = None
   \<and> isOnline (state (rehydrateInternal erroring_backend 0 ''u'' anonymous_hook)) = False
   \<and> memories (state (rehydrateInternal erroring_backend 0 ''u'' anonymous_hook))
       = memories (state anonymous_hook)"
proof -
  have f: "rehydrate_failed (on_rehydrate unreachable_backend (length (invoked cached_hook)))"
    "rehydrate_failed (on_rehydrate erroring_backend (length (invoked anonymous_hook)))"
    by (simp_all add: rehydrate_failed_def unreachable_backend_def erroring_backend_def)
  have c: "readable_item cached_hook = Some (Blob cached_snapshot)"
    "readable_item anonymous_hook = None"
    by (simp_all add: edge_scenarios edge_code)
  have n: "readable_item cached_hook \<noteq> Some JsonNull"
    "readable_item anonymous_hook \<noteq> Some JsonNull"
    by (simp_all add: c)
  have m: "or_default (s_memories cached_snapshot) [] = [with_confidence note_input 0.5]"
    by (simp add: cached_snapshot_def or_default_def)
  show ?thesis
    using rehydrate_failure_keeps_or_loads [OF f(1) n(1), of 0 "''u''"]
      rehydrate_failure_keeps_or_loads [OF f(2) n(2), of 0 "''u''"] f
    by (simp add: c m)
qed

text \<open>
  A cache item that does not parse stays in place when the rehydrate call succeeds: the
  state holds the new memories and the cache holds no snapshot of them.
\<close>

theorem rehydrate_success_unparsable_cache_counterexample:
  "rehydrate_succeeded (on_rehydrate serving_backend (length (invoked corrupted_hook)))
     = Some sample_rehydration
   \<and> memories (state (rehydrateInternal serving_backend 7 ''u'' corrupted_hook))
       = [with_confidence note_input 0.9]
   \<and> items (localStorage (rehydrateInternal serving_backend 7 ''u'' corrupted_hook))
       (cache_key (satelliteId corrupted_hook)) = Some Unparsable"
  by (simp add: edge_scenarios edge_code rehydrate_succeeded_def)

text \<open>
  C4 (amended). When the rehydrate call succeeds, the whole state is replaced by the
  response: memories, knowledge and session from its context (empty where missing), the
  returning-user flag and the greeting, online, not loading, synced at the time of the
  call. The cache write is skipped, its error swallowed and the storage left as it was,
  when reading the storage throws, the existing cache item does not parse, or writing
  throws. In every other case the item written to the cache is a JSON object with the
  same memories, knowledge and session as the new state, stamped with the time of the
  call.
\<close>

theorem rehydrate_success_replaces_and_caches:
  assumes "rehydrate_succeeded (on_rehydrate be (length (invoked w))) = Some d"
  shows "state (rehydrateInternal be now uid w) = \<lparr>
       memories = or_default (context_field c_memories d) [],
       knowledge = or_default (context_field c_knowledge d) Map.empty,
       session = context_field c_session d,
       isReturningUser = r_isReturningUser d,
       greeting = r_greeting d,
       isLoading = False, isOnline = True, lastSyncAt = Some now \<rparr>
    \<and> render_error (rehydrateInternal be now uid w) = render_error w
    \<and> (if cache_write_fails w
        then localStorage (rehydrateInternal be now uid w) = localStorage w
        else
         (case items (localStorage (rehydrateInternal be now uid w))
                 (cache_key (satelliteId w)) of
            Some (Blob b) \<Rightarrow>
              s_memories b = Some (memories (state (rehydrateInternal be now uid w)))
              \<and> s_knowledge b = Some (knowledge (state (rehydrateInternal be now uid w)))
              \<and> s_session b = Some (session (state (rehydrateInternal be now uid w)))
              \<and> s_savedAt b = Some now
          | _ \<Rightarrow> False))"
proof -
  let ?w1 = "setState (assign (newState_of d now))
          (send (RehydrateReq uid (satelliteId w) (currentSessionId w)) w)"
  let ?w2 = "rehydrateInternal be now uid w"
  have w2: "?w2 = saveToLocalStorage now (newState_of d now) ?w1"
    by (rule rehydrateInternal_succeeded [OF assms])
  have sat: "satelliteId ?w1 = satelliteId w" and sto: "localStorage ?w1 = localStorage w"
    and err: "render_error ?w1 = render_error w"
    by (simp_all add: setState_def send_def)
  have fails: "cache_write_fails ?w1 = cache_write_fails w"
    by (simp add: cache_write_fails_def sat sto)
  have st: "state ?w2 = \<lparr>
       memories = or_default (context_field c_memories d) [],
       knowledge = or_default (context_field c_knowledge d) Map.empty,
       session = context_field c_session d,
       isReturningUser = r_isReturningUser d,
       greeting = r_greeting d,
       isLoading = False, isOnline = True, lastSyncAt = Some now \<rparr>"
    unfolding w2 by (simp add: state_saveToLocalStorage setState_def assign_newState)
  have re: "render_error ?w2 = render_error w"
    unfolding w2 by (simp add: render_error_saveToLocalStorage err)
  have merged: "s_memories (merge_snapshot parsed (newState_of d now) now) = Some (memories (state ?w2))
      \<and> s_knowledge (merge_snapshot parsed (newState_of d now) now) = Some (knowledge (state ?w2))
      \<and> s_session (merge_snapshot parsed (newState_of d now) now) = Some (session (state ?w2))
      \<and> s_savedAt (merge_snapshot parsed (newState_of d now) now) = Some now" for parsed
    unfolding st by (simp add: merge_snapshot_def newState_of_def spread_def)
  show ?thesis
  proof (cases "cache_write_fails w")
    case True
    then have "cache_write_fails ?w1" by (simp add: fails)
    then have "?w2 = ?w1" unfolding w2 by (rule saveToLocalStorage_fails)
    then have "localStorage ?w2 = localStorage w" by (simp add: sto)
    with True st re show ?thesis by simp
  next
    case False
    then have "\<not> cache_write_fails ?w1" by (simp add: fails)
    from saveToLocalStorage_writes [OF this, of now "newState_of d now"]
    have "\<exists>parsed. items (localStorage ?w2) (cache_key (satelliteId w)) =
        Some (Blob (merge_snapshot parsed (newState_of d now) now))"
      unfolding w2 sat by blast
    then obtain parsed where "items (localStorage ?w2) (cache_key (satelliteId w)) =
        Some (Blob (merge_snapshot parsed (newState_of d now) now))" by blast
    with False st re merged [of parsed] show ?thesis by simp
  qed
qed

theorem rehydrate_success_replaces_and_caches_witness:
  "rehydrate_succeeded (on_rehydrate serving_backend (length (invoked fresh_hook)))
     = Some sample_rehydration
   \<and> \<not> cache_write_fails fresh_hook
   \<and> memories (state (rehydrateInternal serving_backend 7 ''u'' fresh_hook))
       = [with_confidence note_input 0.9]
   \<and> isOnline (state (rehydrateInternal serving_backend 7 ''u'' fresh_hook))
   \<and> (case items (localStorage (rehydrateInternal serving_backend 7 ''u'' fresh_hook))
              (cache_key ''sat'') of
         Some (Blob b) \<Rightarrow> s_memories b = Some [with_confidence note_input 0.9]
       | _ \<Rightarrow> False)
   \<and> rehydrate_succeeded (on_rehydrate serving_backend (length (invoked full_storage_hook)))
     = Some sample_rehydration
   \<and> cache_write_fails full_storage_hook
   \<and> memories (state (rehydrateInternal serving_backend 7 ''u'' full_storage_hook))
       = [with_confidence note_input 0.9]
   \<and> localStorage (rehydrateInternal serving_backend 7 ''u'' full_storage_hook)
       = localStorage full_storage_hook"
proof -
  have s: "rehydrate_succeeded (on_rehydrate serving_backend (length (invoked fresh_hook)))
     = Some sample_rehydration"
    "rehydrate_succeeded (on_rehydrate serving_backend (length (invoked full_storage_hook)))
     = Some sample_rehydration"
    by (simp_all add: rehydrate_succeeded_def serving_backend_def)
  have c: "\<not> cache_write_fails fresh_hook" "cache_write_fails full_storage_hook"
      and k: "satelliteId fresh_hook = ''sat''"
    by (simp_all add: edge_scenarios edge_code)
  have m: "or_default (context_field c_memories sample_rehydration) []
      = [with_confidence note_input 0.9]"
    by (simp add: sample_rehydration_def or_default_def context_field_def)
  show ?thesis
    using rehydrate_success_replaces_and_caches [OF s(1), of 7 "''u''"]
      rehydrate_success_replaces_and_caches [OF s(2), of 7 "''u''"] s
    by (auto simp add: c k m split: option.splits stored.splits)
qed

section \<open>Properties of updateSession\<close>

lemma identity_send [simp]: "identity (send r w) = identity w"
  by (simp add: identity_def send_def)

lemma identity_setState [simp]: "identity (setState f w) = identity w"
  by (simp add: identity_def setState_def)

lemma invoked_setState [simp]: "invoked (setState f w) = invoked w"
  by (simp add: setState_def)

lemma state_setState [simp]: "state (setState f w) = f (state w)"
  by (simp add: setState_def)

lemma invoked_send [simp]: "invoked (send r w) = invoked w @ [r]"
  by (simp add: send_def)

lemma state_send [simp]: "state (send r w) = state w"
  by (simp add: send_def)

text \<open>
  A signed-in hook with a session sends an update and the backend answers with an error:
  the update is merged into the local session all the same.
\<close>

theorem updateSession_counterexample:
  "identity signed_in_hook = Some ''u''
   \<and> session (state signed_in_hook) = Some sample_session
   \<and> on_sync_session erroring_backend (length (invoked signed_in_hook)) = Resolved None True
   \<and> session (state (updateSession erroring_backend style_update signed_in_hook))
       = Some (sample_session\<lparr>communicationStyle := ''formal''\<rparr>)
   \<and> session (state (updateSession erroring_backend style_update signed_in_hook))
       \<noteq> session (state signed_in_hook)"
  by (simp add: edge_scenarios edge_code updateSession_def merge_into_session_def merge_session_def)

text \<open>
  C7 (amended). Without an identity \<^verbatim>\<open>updateSession\<close> changes nothing. With one it
  sends the \<^verbatim>\<open>sync_session\<close> request; if the call is rejected the state is left
  alone, and otherwise, error reported or not, the update is merged into the session when
  there is one, and the session stays \<^verbatim>\<open>null\<close> when there is none.
\<close>

theorem updateSession_merges_unless_rejected:
  "(identity w = None \<longrightarrow> updateSession be u w = w)
   \<and> (identity w = Some uid \<longrightarrow>
        invoked (updateSession be u w) = invoked w @ [SyncSessionReq uid u]
        \<and> state (updateSession be u w) =
            (if on_sync_session be (length (invoked w)) = Threw then state w
             else (state w)\<lparr>session :=
                    (case session (state w) of None \<Rightarrow> None
                     | Some s \<Rightarrow> Some (merge_session s u))\<rparr>))"
  by (simp add: updateSession_def merge_into_session_def Let_def split: invoke_result.splits)

theorem updateSession_merges_unless_rejected_witness:
  "identity fresh_hook = None \<and> updateSession serving_backend style_update fresh_hook = fresh_hook
   \<and> identity signed_in_hook = Some ''u''
   \<and> invoked (updateSession unreachable_backend style_update signed_in_hook)
        = invoked signed_in_hook @ [SyncSessionReq ''u'' style_update]
   \<and> session (state (updateSession unreachable_backend style_update signed_in_hook))
        = Some sample_session
   \<and> session (state (updateSession serving_backend style_update signed_in_hook))
        = Some (sample_session\<lparr>communicationStyle := ''formal''\<rparr>)"
proof -
  have a: "identity fresh_hook = None"
    by (simp add: edge_scenarios edge_code)
  have b: "identity signed_in_hook = Some ''u''"
    by (simp add: edge_scenarios edge_code)
  have s: "session (state signed_in_hook) = Some sample_session"
    by (simp add: edge_scenarios edge_code)
  have m: "merge_session sample_session style_update = sample_session\<lparr>communicationStyle := ''formal''\<rparr>"
    by (simp add: merge_session_def style_update_def sample_session_def spread_def or_default_def)
  have r: "on_sync_session unreachable_backend (length (invoked signed_in_hook)) = Threw"
    "on_sync_session serving_backend (length (invoked signed_in_hook)) \<noteq> Threw"
    by (simp_all add: unreachable_backend_def serving_backend_def)
  show ?thesis
    using updateSession_merges_unless_rejected [of fresh_hook serving_backend style_update "''u''"]
      updateSession_merges_unless_rejected [of signed_in_hook unreachable_backend style_update "''u''"]
      updateSession_merges_unless_rejected [of signed_in_hook serving_backend style_update "''u''"]
    by (simp add: a b s m r)
qed

section \<open>Properties of extractInsights\<close>

lemma identity_storeMemory [simp]: "identity (storeMemory be m w) = identity w"
  by (simp add: storeMemory_def Let_def split: option.splits invoke_result.splits)

lemma identity_evolveKnowledge [simp]: "identity (evolveKnowledge be k v ty w) = identity w"
  by (simp add: evolveKnowledge_def Let_def split: option.splits invoke_result.splits)

lemma invoked_storeMemory:
  "identity w = Some uid \<Longrightarrow>
   invoked (storeMemory be m w) = invoked w @ [StoreMemoryReq uid m (source_mode_of w)]"
  by (simp add: storeMemory_def source_mode_of_def Let_def split: invoke_result.splits)

lemma state_storeMemory: "state (storeMemory be m w) = appendMemory m (state w)"
  by (simp add: storeMemory_def Let_def split: option.splits invoke_result.splits)

lemma source_mode_storeMemory [simp]: "source_mode_of (storeMemory be m w) = source_mode_of w"
  by (simp add: source_mode_of_def state_storeMemory appendMemory_def)

lemma invoked_evolveKnowledge:
  "identity w = Some uid \<Longrightarrow>
   invoked (evolveKnowledge be k v ty w) = invoked w @ [EvolveKnowledgeReq uid ty k v]"
  by (simp add: evolveKnowledge_def Let_def split: invoke_result.splits option.splits)

lemma memories_evolveKnowledge [simp]:
  "memories (state (evolveKnowledge be k v ty w)) = memories (state w)"
  by (simp add: evolveKnowledge_def put_knowledge_def Let_def split: invoke_result.splits option.splits)

lemma source_mode_evolveKnowledge [simp]:
  "source_mode_of (evolveKnowledge be k v ty w) = source_mode_of w"
  by (simp add: source_mode_of_def evolveKnowledge_def put_knowledge_def Let_def
      split: invoke_result.splits option.splits)

lemma evolve_each_props:
  "identity w = Some uid \<Longrightarrow>
   identity (evolve_each be t ty ps w) = Some uid
   \<and> source_mode_of (evolve_each be t ty ps w) = source_mode_of w
   \<and> memories (state (evolve_each be t ty ps w)) = memories (state w)
   \<and> invoked (evolve_each be t ty ps w) =
       invoked w @ map (evolve_request uid ty)
                     (filter (\<lambda>p. confidence_above (i_confidence p) t) ps)"
proof (induction ps arbitrary: w)
  case Nil
  then show ?case by simp
next
  case (Cons p ps)
  show ?case
  proof (cases "confidence_above (i_confidence p) t")
    case True
    let ?w1 = "evolveKnowledge be (i_key p) (i_value p) ty w"
    have id1: "identity ?w1 = Some uid" using Cons.prems by simp
    show ?thesis
      using Cons.IH [OF id1] True Cons.prems
      by (simp add: invoked_evolveKnowledge evolve_request_def)
  next
    case False
    then show ?thesis using Cons.IH [OF Cons.prems] by simp
  qed
qed

lemma store_each_props:
  "identity w = Some uid \<Longrightarrow>
   identity (store_each be fs w) = Some uid
   \<and> state (store_each be fs w) = fold appendMemory (map fact_memory fs) (state w)
   \<and> invoked (store_each be fs w) =
       invoked w @ map (store_request uid (source_mode_of w)) fs"
proof (induction fs arbitrary: w)
  case Nil
  then show ?case by simp
next
  case (Cons f fs)
  let ?w1 = "storeMemory be (fact_memory f) w"
  have id1: "identity ?w1 = Some uid" using Cons.prems by simp
  show ?case
    using Cons.IH [OF id1] Cons.prems
    by (simp add: invoked_storeMemory state_storeMemory store_request_def)
qed

lemma knowledge_fold_appendMemory:
  "knowledge (fold appendMemory ms s) = knowledge s"
  by (induction ms arbitrary: s) (simp_all add: appendMemory_def)

lemma memories_fold_appendMemory_cong:
  "memories s = memories s' \<Longrightarrow>
   memories (fold appendMemory ms s) = memories (fold appendMemory ms s')"
  by (induction ms arbitrary: s s') (simp_all add: appendMemory_def)

lemma fan_out_props:
  assumes "identity w = Some uid"
  shows "invoked (fan_out be ins w) =
       invoked w
       @ map (evolve_request uid ''preference'')
           (filter (\<lambda>p. confidence_above (i_confidence p) 0.6) (or_default (preferences ins) []))
       @ map (evolve_request uid ''behavior'')
           (filter (\<lambda>p. confidence_above (i_confidence p) 0.5) (or_default (patterns ins) []))
       @ map (store_request uid (source_mode_of w)) (or_default (facts ins) [])"
    and "memories (state (fan_out be ins w)) =
       memories (fold appendMemory (map fact_memory (or_default (facts ins) [])) (state w))"
proof -
  let ?w1 = "evolve_each be 0.6 ''preference'' (or_default (preferences ins) []) w"
  let ?w2 = "evolve_each be 0.5 ''behavior'' (or_default (patterns ins) []) ?w1"
  note p1 = evolve_each_props [OF assms, of be "0.6" "''preference''" "or_default (preferences ins) []"]
  from p1 have id1: "identity ?w1 = Some uid" by simp
  note p2 = evolve_each_props [OF id1, of be "0.5" "''behavior''" "or_default (patterns ins) []"]
  from p2 have id2: "identity ?w2 = Some uid" by simp
  note p3 = store_each_props [OF id2, of be "or_default (facts ins) []"]
  show "invoked (fan_out be ins w) =
       invoked w
       @ map (evolve_request uid ''preference'')
           (filter (\<lambda>p. confidence_above (i_confidence p) 0.6) (or_default (preferences ins) []))
       @ map (evolve_request uid ''behavior'')
           (filter (\<lambda>p. confidence_above (i_confidence p) 0.5) (or_default (patterns ins) []))
       @ map (store_request uid (source_mode_of w)) (or_default (facts ins) [])"
    unfolding fan_out_def using p1 p2 p3 by simp
  have a: "memories (state (fan_out be ins w)) =
      memories (fold appendMemory (map fact_memory (or_default (facts ins) [])) (state ?w2))"
    unfolding fan_out_def using p3 by simp
  have b: "memories (state ?w2) = memories (state w)" using p1 p2 by simp
  show "memories (state (fan_out be ins w)) =
       memories (fold appendMemory (map fact_memory (or_default (facts ins) [])) (state w))"
    unfolding a by (rule memories_fold_appendMemory_cong [OF b])
qed

lemma extractInsights_skipped:
  "identity w = None \<or> length conv < 2 \<Longrightarrow> extractInsights be conv w = w"
  by (auto simp add: extractInsights_def split: option.splits)

lemma extractInsights_success:
  "\<lbrakk>identity w = Some uid; 2 \<le> length conv;
    on_extract_insights be (length (invoked w)) = Resolved (Some data) e;
    success data; insights_of data = Some ins\<rbrakk> \<Longrightarrow>
   extractInsights be conv w = fan_out be ins (send (ExtractInsightsReq uid conv) w)"
  by (simp add: extractInsights_def Let_def)

lemma source_mode_send [simp]: "source_mode_of (send r w) = source_mode_of w"
  by (simp add: source_mode_of_def)

lemmas insight_scenarios = three_facts_def facts_only_def insight_backend_def short_talk_def
  mixed_insights_def mixed_backend_def

text \<open>
  C8. \<^verbatim>\<open>extractInsights\<close> changes nothing and sends nothing without an identity or
  with fewer than two turns. On a successful reply with insights, the requests sent after
  the extraction request are, in this order: one evolution of type \<open>preference\<close> for each
  preference whose confidence is greater than 0.6, one of type \<open>behavior\<close> for each
  pattern whose confidence is greater than 0.5, and one memory store for every fact; the
  memories are those of storing the facts one after the other. With three facts and no
  preferences or patterns these are exactly three stores, in the order of the facts, and
  the state is that of three successive appends.
\<close>

theorem extractInsights_fan_out:
  "(identity w = None \<or> length conv < 2 \<longrightarrow> extractInsights be conv w = w)
   \<and> (identity w = Some uid \<and> 2 \<le> length conv
        \<and> on_extract_insights be (length (invoked w)) = Resolved (Some data) e
        \<and> success data \<and> insights_of data = Some ins \<longrightarrow>
       invoked (extractInsights be conv w) =
         invoked w @ [ExtractInsightsReq uid conv]
         @ map (evolve_request uid ''preference'')
             (filter (\<lambda>p. confidence_above (i_confidence p) 0.6) (or_default (preferences ins) []))
         @ map (evolve_request uid ''behavior'')
             (filter (\<lambda>p. confidence_above (i_confidence p) 0.5) (or_default (patterns ins) []))
         @ map (store_request uid (source_mode_of w)) (or_default (facts ins) [])
       \<and> memories (state (extractInsights be conv w)) =
           memories (fold appendMemory (map fact_memory (or_default (facts ins) [])) (state w))
       \<and> (or_default (preferences ins) [] = [] \<and> or_default (patterns ins) [] = []
            \<and> facts ins = Some [f1, f2, f3] \<longrightarrow>
            invoked (extractInsights be conv w) =
              invoked w @ [ExtractInsightsReq uid conv,
                 StoreMemoryReq uid (fact_memory f1) (source_mode_of w),
                 StoreMemoryReq uid (fact_memory f2) (source_mode_of w),
                 StoreMemoryReq uid (fact_memory f3) (source_mode_of w)]
            \<and> state (extractInsights be conv w) =
                appendMemory (fact_memory f3)
                  (appendMemory (fact_memory f2) (appendMemory (fact_memory f1) (state w)))))"
proof (intro conjI impI)
  assume "identity w = None \<or> length conv < 2"
  then show "extractInsights be conv w = w" by (rule extractInsights_skipped)
next
  assume h: "identity w = Some uid \<and> 2 \<le> length conv
        \<and> on_extract_insights be (length (invoked w)) = Resolved (Some data) e
        \<and> success data \<and> insights_of data = Some ins"
  let ?w1 = "send (ExtractInsightsReq uid conv) w"
  have eq: "extractInsights be conv w = fan_out be ins ?w1"
    using h by (simp add: extractInsights_success)
  have id1: "identity ?w1 = Some uid" using h by simp
  show "invoked (extractInsights be conv w) =
         invoked w @ [ExtractInsightsReq uid conv]
         @ map (evolve_request uid ''preference'')
             (filter (\<lambda>p. confidence_above (i_confidence p) 0.6) (or_default (preferences ins) []))
         @ map (evolve_request uid ''behavior'')
             (filter (\<lambda>p. confidence_above (i_confidence p) 0.5) (or_default (patterns ins) []))
         @ map (store_request uid (source_mode_of w)) (or_default (facts ins) [])"
    unfolding eq fan_out_props(1) [OF id1] by simp
  show "memories (state (extractInsights be conv w)) =
           memories (fold appendMemory (map fact_memory (or_default (facts ins) [])) (state w))"
    unfolding eq fan_out_props(2) [OF id1] by simp
next
  assume h: "identity w = Some uid \<and> 2 \<le> length conv
        \<and> on_extract_insights be (length (invoked w)) = Resolved (Some data) e
        \<and> success data \<and> insights_of data = Some ins"
    and three: "or_default (preferences ins) [] = [] \<and> or_default (patterns ins) [] = []
            \<and> facts ins = Some [f1, f2, f3]"
  let ?w1 = "send (ExtractInsightsReq uid conv) w"
  have eq: "extractInsights be conv w = store_each be [f1, f2, f3] ?w1"
    using h three by (simp add: extractInsights_success fan_out_def or_default_def)
  have id1: "identity ?w1 = Some uid" using h by simp
  note p = store_each_props [OF id1, of be "[f1, f2, f3]"]
  show "invoked (extractInsights be conv w) =
              invoked w @ [ExtractInsightsReq uid conv,
                 StoreMemoryReq uid (fact_memory f1) (source_mode_of w),
                 StoreMemoryReq uid (fact_memory f2) (source_mode_of w),
                 StoreMemoryReq uid (fact_memory f3) (source_mode_of w)]"
    unfolding eq using p by (simp add: store_request_def)
  show "state (extractInsights be conv w) =
                appendMemory (fact_memory f3)
                  (appendMemory (fact_memory f2) (appendMemory (fact_memory f1) (state w)))"
    unfolding eq using p by simp
qed

theorem extractInsights_fan_out_witness:
  "identity fresh_hook = None
   \<and> extractInsights insight_backend short_talk fresh_hook = fresh_hook
   \<and> length [hd short_talk] < 2
   \<and> extractInsights insight_backend [hd short_talk] signed_in_hook = signed_in_hook
   \<and> identity signed_in_hook = Some ''u'' \<and> 2 \<le> length short_talk
   \<and> invoked (extractInsights insight_backend short_talk signed_in_hook) =
       invoked signed_in_hook @ [ExtractInsightsReq ''u'' short_talk,
         StoreMemoryReq ''u'' (fact_memory (three_facts ! 0)) SrcFederated,
         StoreMemoryReq ''u'' (fact_memory (three_facts ! 1)) SrcFederated,
         StoreMemoryReq ''u'' (fact_memory (three_facts ! 2)) SrcFederated]
   \<and> invoked (extractInsights mixed_backend short_talk signed_in_hook) =
       invoked signed_in_hook @ [ExtractInsightsReq ''u'' short_talk,
         EvolveKnowledgeReq ''u'' ''preference'' ''drink'' (JStr ''tea''),
         EvolveKnowledgeReq ''u'' ''behavior'' ''brief'' (JBool True),
         StoreMemoryReq ''u'' (fact_memory \<lparr> f_content = ''has two cats'', f_importance = ''low'' \<rparr>)
           SrcFederated]"
proof -
  have a: "identity fresh_hook = None" "identity signed_in_hook = Some ''u''"
    "source_mode_of signed_in_hook = SrcFederated"
    by (simp_all add: edge_scenarios edge_code source_mode_of_def)
  have l: "length [hd short_talk] < 2" "2 \<le> length short_talk"
    by (simp_all add: short_talk_def)
  have r1: "on_extract_insights insight_backend (length (invoked signed_in_hook))
      = Resolved (Some facts_only) False"
    and r2: "on_extract_insights mixed_backend (length (invoked signed_in_hook))
      = Resolved (Some mixed_insights) False"
    by (simp_all add: insight_backend_def mixed_backend_def)
  have f: "success facts_only" "insights_of facts_only = Some \<lparr> preferences = None, patterns = Some [], facts = Some three_facts \<rparr>"
    by (simp_all add: facts_only_def)
  have t: "three_facts = [three_facts ! 0, three_facts ! 1, three_facts ! 2]"
    by (simp add: three_facts_def)
  have m: "success mixed_insights" by (simp add: mixed_insights_def)
  show ?thesis
    using extractInsights_fan_out [where w = fresh_hook and conv = short_talk
          and be = insight_backend]
      extractInsights_fan_out [where w = signed_in_hook and conv = "[hd short_talk]"
          and be = insight_backend]
      extractInsights_fan_out [where w = signed_in_hook and uid = "''u''" and conv = short_talk
          and be = insight_backend and data = facts_only and e = False
          and ins = "\<lparr> preferences = None, patterns = Some [], facts = Some three_facts \<rparr>"
          and ?f1.0 = "three_facts ! 0" and ?f2.0 = "three_facts ! 1" and ?f3.0 = "three_facts ! 2"]
      extractInsights_fan_out [where w = signed_in_hook and uid = "''u''" and conv = short_talk
          and be = mixed_backend and data = mixed_insights and e = False
          and ins = "the (insights_of mixed_insights)"]
    apply (simp only: a l r1 r2 f m simp_thms)
    apply (simp add: a l t [symmetric] or_default_def)
    apply (simp add: mixed_insights_def confidence_above_def evolve_request_def store_request_def)
    apply (simp add: three_facts_def store_request_def)
    done
qed

section \<open>Properties of useDualHemisphere\<close>

lemmas core_scenarios = sample_answer_def quick_ping_def slow_ping_def lost_ping_def
  answering_federation_def offline_federation_def slow_federation_def
  recovering_federation_def fresh_core_def

lemmas core_code = useDualHemisphere_def request_def checkFederationHealth_def
  processSovereign_def failover_def try_primary_def process_def remember_def
  primary_answer_def sovereign_answer_def text_or_empty_def number_or_def

lemma checkFederationHealth_snd:
  "snd (checkFederationHealth fed w) = request (PingReq (dh_satelliteId w)) w"
  by (simp add: checkFederationHealth_def Let_def split: invoke_result.splits)

lemma checkFederationHealth_verdict:
  "fst (checkFederationHealth fed w) =
     (case ping_result (on_ping fed (length (requests w))) of
        Threw \<Rightarrow> False | Resolved d e \<Rightarrow> \<not> e,
      latency_ms (on_ping fed (length (requests w))))"
  by (simp add: checkFederationHealth_def Let_def split: invoke_result.splits)

lemma processSovereign_fst:
  "fst (processSovereign fed q gm w) = sovereign_outcome (on_sovereign fed (length (requests w)))"
  by (simp add: processSovereign_def sovereign_outcome_def Let_def
      split: invoke_result.splits option.splits)

lemma processSovereign_requests:
  "requests (snd (processSovereign fed q gm w)) =
     requests w @ [SovereignReq q gm (slice_last 10 (localMemory w))]"
  by (simp add: processSovereign_def request_def remember_def Let_def
      split: invoke_result.splits option.splits)

lemma processSovereign_flag:
  "isSovereign (snd (processSovereign fed q gm w)) = isSovereign w"
  by (simp add: processSovereign_def request_def remember_def Let_def
      split: invoke_result.splits option.splits)

lemma processSovereign_window:
  "localMemory (snd (processSovereign fed q gm w)) =
     (case sovereign_outcome (on_sovereign fed (length (requests w))) of
        Inl err \<Rightarrow> localMemory w
      | Inr r \<Rightarrow> slice_last 9 (localMemory w) @
          [\<lparr> w_role = ''user'', w_content = Some q \<rparr>,
           \<lparr> w_role = ''assistant'',
             w_content = (case on_sovereign fed (length (requests w)) of
                            Resolved (Some data) e \<Rightarrow> d_response data | _ \<Rightarrow> None) \<rparr>])"
  by (simp add: processSovereign_def sovereign_outcome_def request_def remember_def Let_def
      split: invoke_result.splits option.splits)

text \<open>
  A sovereign reply with neither error nor data: the call ends by an exception, and the
  updater it queued throws when the component renders.
\<close>

lemma processSovereign_null_data:
  "on_sovereign fed (length (requests w)) = Resolved None False \<Longrightarrow>
   fst (processSovereign fed q gm w) = Inl TypeError
   \<and> window_error (snd (processSovereign fed q gm w))
   \<and> localMemory (snd (processSovereign fed q gm w)) = localMemory w"
  by (simp add: processSovereign_def request_def Let_def)

lemma failover_fst:
  "fst (failover fed q gm w) = sovereign_outcome (on_sovereign fed (length (requests w)))"
  using processSovereign_fst [of fed q gm "w\<lparr>isSovereign := True\<rparr>"]
  by (auto simp add: failover_def split: prod.splits sum.splits)

lemma failover_requests:
  "requests (snd (failover fed q gm w)) =
     requests w @ [SovereignReq q gm (slice_last 10 (localMemory w))]"
  using processSovereign_requests [of fed q gm "w\<lparr>isSovereign := True\<rparr>"]
  by (auto simp add: failover_def split: prod.splits sum.splits)

lemma failover_flag: "isSovereign (snd (failover fed q gm w))"
  using processSovereign_flag [of fed q gm "w\<lparr>isSovereign := True\<rparr>"]
  by (auto simp add: failover_def split: prod.splits sum.splits)

lemma failover_flag_result: "failover fed q gm w = (r, w') \<Longrightarrow> isSovereign w'"
  using failover_flag [of fed q gm w] by simp

lemma failover_after_force:
  "failover fed q gm (request r (forceSovereign b w)) = failover fed q gm (request r w)"
  by (simp add: failover_def request_def forceSovereign_def)

lemma reset_after_force:
  "(request r (forceSovereign b w))\<lparr>isSovereign := False\<rparr> = (request r w)\<lparr>isSovereign := False\<rparr>"
  by (simp add: request_def forceSovereign_def)

lemma failover_ignores_flag:
  "failover fed q gm (w\<lparr>isSovereign := b\<rparr>) = failover fed q gm w"
  by (simp add: failover_def)

lemma process_unhealthy:
  assumes "\<not> healthy fed w"
  shows "process fed q gm w = failover fed q gm (request (PingReq (dh_satelliteId w)) w)"
proof -
  obtain h t w1 where c: "checkFederationHealth fed w = ((h, t), w1)"
    by (cases "checkFederationHealth fed w") auto
  have "w1 = request (PingReq (dh_satelliteId w)) w"
    using checkFederationHealth_snd [of fed w] c by simp
  moreover have "\<not> h" using assms c by (simp add: healthy_def)
  ultimately show ?thesis by (simp add: process_def c)
qed

lemma process_healthy:
  assumes "healthy fed w"
  shows "process fed q gm w =
     try_primary fed q gm ((request (PingReq (dh_satelliteId w)) w)\<lparr>isSovereign := False\<rparr>)"
proof -
  obtain h t w1 where c: "checkFederationHealth fed w = ((h, t), w1)"
    by (cases "checkFederationHealth fed w") auto
  have "w1 = request (PingReq (dh_satelliteId w)) w"
    using checkFederationHealth_snd [of fed w] c by simp
  moreover have "h" using assms c by (simp add: healthy_def)
  ultimately show ?thesis by (simp add: process_def c)
qed

lemma try_primary_flag:
  "isSovereign (snd (try_primary fed q gm w)) =
     (if primary_failed (on_chat fed (length (requests w))) then True else isSovereign w)"
  by (auto simp add: try_primary_def primary_failed_def Let_def failover_flag request_def remember_def
      dest: failover_flag_result
      split: invoke_result.splits option.splits prod.splits sum.splits)

lemma try_primary_requests:
  "requests (snd (try_primary fed q gm w)) =
     requests w @
       (case on_chat fed (length (requests w)) of
          Threw \<Rightarrow> [ChatReq q gm, SovereignReq q gm (slice_last 10 (localMemory w))]
        | Resolved d e \<Rightarrow>
            if e then
              (case sovereign_outcome (on_sovereign fed (Suc (length (requests w)))) of
                 Inl err \<Rightarrow> [ChatReq q gm, SovereignReq q gm (slice_last 10 (localMemory w)),
                               SovereignReq q gm (slice_last 10 (localMemory w))]
               | Inr r \<Rightarrow> [ChatReq q gm, SovereignReq q gm (slice_last 10 (localMemory w))])
            else (case d of
                    None \<Rightarrow> [ChatReq q gm, SovereignReq q gm (slice_last 10 (localMemory w))]
                  | Some data \<Rightarrow> [ChatReq q gm]))"
proof (cases "on_chat fed (length (requests w))")
  case Threw
  then show ?thesis
    by (simp add: try_primary_def Let_def failover_requests request_def)
next
  case (Resolved d e)
  let ?w1 = "request (ChatReq q gm) w"
  show ?thesis
  proof (cases e)
    case False
    with Resolved show ?thesis
      by (simp add: try_primary_def Let_def failover_requests request_def remember_def
          split: option.splits)
  next
    case True
    obtain r w2 where f: "failover fed q gm ?w1 = (r, w2)"
      by (cases "failover fed q gm ?w1") auto
    have r: "r = sovereign_outcome (on_sovereign fed (Suc (length (requests w))))"
      using failover_fst [of fed q gm ?w1] f by (simp add: request_def)
    have q2: "requests w2 = requests w @ [ChatReq q gm, SovereignReq q gm (slice_last 10 (localMemory w))]"
      using failover_requests [of fed q gm ?w1] f by (simp add: request_def)
    have m2: "r = Inl err \<Longrightarrow> localMemory w2 = localMemory w" for err
      using f r processSovereign_window [of fed q gm "?w1\<lparr>isSovereign := True\<rparr>"]
      by (auto simp add: failover_def request_def split: prod.splits sum.splits)
    show ?thesis
    proof (cases r)
      case (Inl err)
      with r have so: "sovereign_outcome (on_sovereign fed (Suc (length (requests w)))) = Inl err"
        by simp
      from Resolved True f Inl q2 m2 [OF Inl] show ?thesis
        by (simp add: try_primary_def Let_def failover_requests so)
    next
      case (Inr res)
      with r have so: "sovereign_outcome (on_sovereign fed (Suc (length (requests w)))) = Inr res"
        by simp
      from Resolved True f Inr q2 show ?thesis
        by (simp add: try_primary_def Let_def so)
    qed
  qed
qed

lemma checkFederationHealth_failure_unhealthy:
  "ping_result (on_ping fed (length (requests w))) = Threw
   \<or> ping_result (on_ping fed (length (requests w))) = Resolved d True
   \<Longrightarrow> \<not> healthy fed w"
  by (auto simp add: healthy_def checkFederationHealth_verdict)

lemma process_success_window:
  assumes "healthy fed w"
    and "on_chat fed (Suc (length (requests w))) = Resolved (Some data) False"
  shows "localMemory (snd (process fed q gm w)) =
     slice_last 9 (localMemory w) @
       [\<lparr> w_role = ''user'', w_content = Some q \<rparr>,
        \<lparr> w_role = ''assistant'', w_content = Some (text_or_empty (d_response data)) \<rparr>]"
  unfolding process_healthy [OF assms(1)] using assms(2)
  by (simp add: try_primary_def Let_def request_def remember_def primary_answer_def)

lemma window_after_remember:
  "length (localMemory (remember q a w)) \<le> 11"
  by (simp add: remember_def length_slice_last)

lemma sovereign_context_bounded:
  "\<exists>ctx. last (requests (snd (processSovereign fed q gm w))) = SovereignReq q gm ctx
     \<and> ctx = slice_last 10 (localMemory w) \<and> length ctx \<le> 10"
  by (simp add: processSovereign_requests length_slice_last)

text \<open>
  C5. When the health check says unhealthy, \<^verbatim>\<open>process\<close> sends the ping and then one
  request to the sovereign function, with the last ten turns of the window, and nothing
  to the primary function; sovereign mode is on afterwards, and the call ends as the
  sovereign call does, with its result or its exception.
\<close>

theorem process_unhealthy_sovereign_only:
  assumes "\<not> healthy fed w"
  shows "requests (snd (process fed q gm w)) =
           requests w @ [PingReq (dh_satelliteId w),
                         SovereignReq q gm (slice_last 10 (localMemory w))]
    \<and> isSovereign (snd (process fed q gm w))
    \<and> fst (process fed q gm w) = sovereign_outcome (on_sovereign fed (Suc (length (requests w))))"
  unfolding process_unhealthy [OF assms]
  by (simp add: failover_requests failover_flag failover_fst request_def)

theorem process_unhealthy_sovereign_only_witness:
  "\<not> healthy offline_federation fresh_core
   \<and> requests (snd (process offline_federation ''why'' Strict fresh_core)) =
       [PingReq ''sat'', SovereignReq ''why'' Strict []]
   \<and> isSovereign (snd (process offline_federation ''why'' Strict fresh_core))
   \<and> fst (process offline_federation ''why'' Strict fresh_core) = Inr (sovereign_answer sample_answer)"
proof -
  have h: "\<not> healthy offline_federation fresh_core"
    by (simp add: healthy_def checkFederationHealth_verdict offline_federation_def lost_ping_def)
  show ?thesis
    using process_unhealthy_sovereign_only [OF h, of "''why''" Strict] h
    by (simp add: fresh_core_def useDualHemisphere_def slice_last_def
        offline_federation_def sovereign_outcome_def)
qed

text \<open>
  C10. The sovereign flag after \<^verbatim>\<open>process\<close> is decided by this call alone: it is on
  exactly when the health check failed or the primary call failed. After a healthy check
  the primary attempt starts from a state whose flag has been set to false, and the whole
  call does the same whatever the flag was before, forced or not.
\<close>

theorem sovereign_mode_not_sticky:
  "isSovereign (snd (process fed q gm w)) =
     (\<not> healthy fed w \<or> primary_failed (on_chat fed (Suc (length (requests w)))))
   \<and> (healthy fed w \<longrightarrow>
        process fed q gm w =
          try_primary fed q gm
            ((request (PingReq (dh_satelliteId w)) w)\<lparr>isSovereign := False\<rparr>))
   \<and> process fed q gm (forceSovereign b w) = process fed q gm w"
proof (intro conjI impI)
  show "isSovereign (snd (process fed q gm w)) =
     (\<not> healthy fed w \<or> primary_failed (on_chat fed (Suc (length (requests w)))))"
  proof (cases "healthy fed w")
    case True
    then show ?thesis
      by (simp add: process_healthy try_primary_flag request_def)
  next
    case False
    then show ?thesis by (simp add: process_unhealthy failover_flag)
  qed
next
  assume "healthy fed w"
  then show "process fed q gm w =
          try_primary fed q gm
            ((request (PingReq (dh_satelliteId w)) w)\<lparr>isSovereign := False\<rparr>)"
    by (rule process_healthy)
next
  have h: "healthy fed (forceSovereign b w) = healthy fed w"
    by (simp add: healthy_def checkFederationHealth_verdict forceSovereign_def)
  have s: "dh_satelliteId (forceSovereign b w) = dh_satelliteId w"
    by (simp add: forceSovereign_def)
  show "process fed q gm (forceSovereign b w) = process fed q gm w"
  proof (cases "healthy fed w")
    case True
    with h have "healthy fed (forceSovereign b w)" by simp
    from process_healthy [OF this] process_healthy [OF True] show ?thesis
      by (simp add: s reset_after_force)
  next
    case False
    with h have "\<not> healthy fed (forceSovereign b w)" by simp
    from process_unhealthy [OF this] process_unhealthy [OF False] show ?thesis
      by (simp add: s failover_after_force)
  qed
qed

theorem sovereign_mode_not_sticky_witness:
  "isSovereign stranded_core
   \<and> healthy answering_federation stranded_core
   \<and> \<not> isSovereign (snd (process answering_federation ''next'' Standard stranded_core))
   \<and> \<not> healthy offline_federation stranded_core
   \<and> isSovereign (snd (process offline_federation ''next'' Standard stranded_core))
   \<and> process answering_federation ''next'' Standard (forceSovereign True fresh_core)
       = process answering_federation ''next'' Standard fresh_core"
proof -
  have s: "isSovereign stranded_core"
    by (simp add: stranded_core_def core_scenarios core_code)
  have h: "healthy answering_federation w" "\<not> healthy offline_federation w" for w
    by (simp_all add: healthy_def checkFederationHealth_verdict answering_federation_def
        offline_federation_def quick_ping_def lost_ping_def)
  have p: "\<not> primary_failed (on_chat answering_federation n)" for n
    by (simp add: primary_failed_def answering_federation_def)
  show ?thesis
    using sovereign_mode_not_sticky [where fed = answering_federation and q = "''next''"
          and gm = Standard and w = stranded_core, THEN conjunct1]
      sovereign_mode_not_sticky [where fed = offline_federation and q = "''next''"
          and gm = Standard and w = stranded_core, THEN conjunct1]
      sovereign_mode_not_sticky [where fed = answering_federation and q = "''next''"
          and gm = Standard and w = fresh_core and b = True, THEN conjunct2, THEN conjunct2]
    by (simp add: s h p)
qed

text \<open>
  C6, evaluated where it fails. The health check passes, the primary function reports an
  error, and the first sovereign call reports an error too. That exception is raised
  inside the \<^verbatim>\<open>try\<close> block, so the \<^verbatim>\<open>catch\<close> calls the sovereign function a second
  time: two sovereign requests are sent, and the caller gets the second call's answer
  instead of the first call's failure.
\<close>

theorem process_error_then_sovereign_failure_retries:
  "healthy recovering_federation fresh_core
   \<and> on_chat recovering_federation 1 = Resolved None True
   \<and> sovereign_outcome (on_sovereign recovering_federation 2) = Inl BackendError
   \<and> requests (snd (process recovering_federation ''why'' Standard fresh_core)) =
       [PingReq ''sat'', ChatReq ''why'' Standard,
        SovereignReq ''why'' Standard [], SovereignReq ''why'' Standard []]
   \<and> fst (process recovering_federation ''why'' Standard fresh_core)
       = Inr (sovereign_answer sample_answer)"
  by (simp add: healthy_def sovereign_outcome_def core_scenarios core_code slice_last_def)

text \<open>
  C9, evaluated where it fails. A ping that is answered without error after 5000 ms: the
  timer has aborted the controller at 3000 ms, yet the check waits the 5000 ms and
  reports the federation healthy.
\<close>

theorem checkFederationHealth_slow_ping_reported_healthy:
  "controller_aborted (on_ping slow_federation (length (requests fresh_core)))
   \<and> fst (checkFederationHealth slow_federation fresh_core) = (True, 5000)"
  by (simp add: controller_aborted_def FEDERATION_TIMEOUT_MS_def core_scenarios core_code)

text \<open>
  C2, evaluated where it fails. Six queries answered by the primary function, starting
  from an empty window: the window then holds eleven turns.
\<close>

theorem window_holds_eleven_turns:
  "length (localMemory (process_seq answering_federation Standard
      [''a'', ''b'', ''c'', ''d'', ''e'', ''f''] fresh_core)) = 11"
proof -
  have h: "healthy answering_federation w" for w
    by (simp add: healthy_def checkFederationHealth_verdict answering_federation_def quick_ping_def)
  have c: "on_chat answering_federation n = Resolved (Some sample_answer) False" for n
    by (simp add: answering_federation_def)
  have step: "length (localMemory (snd (process answering_federation q Standard w))) =
      min 9 (length (localMemory w)) + 2" for q w
    using process_success_window [OF h c, where w = w and q = q and gm = Standard]
    by (simp add: length_slice_last)
  have "localMemory fresh_core = []"
    by (simp add: fresh_core_def useDualHemisphere_def)
  then show ?thesis by (simp add: step)
qed

end
